theory Spec2Isabelle
  imports Complex_Main
begin

section \<open>Authentication middleware and the server's error handler\<close>

text \<open>
  The backend has two authentication middlewares and one global bypass.
  \<^item> \<open>middleware/auth.js\<close> (used by the risk, banking and privacy routes) attaches the
    demo user and calls \<open>next()\<close>; its token check is commented out.
  \<^item> \<open>middleware/auth.middleware.js\<close> (used by the contract and user routes) reads the
    \<open>x-auth-token\<close> header, answers 401 when it is missing, accepts any token outside
    production and verifies it with \<open>jwt.verify\<close> in production.
  \<^item> the server installs \<open>app.use\<close> with a handler that attaches the demo user to every
    request before the routers run.

  A request is the header the middlewares read and the \<open>req.user\<close> they write. Console
  output is a list of events, one constructor per \<open>console.log\<close>/\<open>console.error\<close> call
  of the source.
\<close>

record user =
  user_id :: string
  user_email :: string
  user_name :: "string option"

record request =
  x_auth_token :: "string option"
  req_user :: "user option"

record json_error =
  status :: nat
  message :: string
  error_field :: "string option"
  warning_field :: "string option"

datatype console =
    LogAuthBypassed              \<comment> \<open>AUTH MIDDLEWARE: Token validation bypassed for hackathon demo\<close>
  | LogDevMockUser               \<comment> \<open>Development mode: Creating mock user from token\<close>
  | ErrAuthMiddleware string     \<comment> \<open>Auth middleware error: err.message\<close>
  | LogGlobalBypassEnabled       \<comment> \<open>HACKATHON DEMO MODE: Authentication bypass enabled\<close>
  | ErrStack string              \<comment> \<open>console.error(err.stack)\<close>
  | LogMongoMemoryOnly           \<comment> \<open>MongoDB operation failed, but continuing in memory-only mode\<close>
  | ErrGeneratingProof string    \<comment> \<open>Error generating ZK-proof: err.message\<close>

datatype handled = Next request | Respond json_error

definition demo_user :: user where
  "demo_user = \<lparr>user_id = ''demo_user_123'', user_email = ''demo@example.com'',
                 user_name = Some ''Demo User''\<rparr>"

definition mock_user :: user where
  "mock_user = \<lparr>user_id = ''mock_user_id'', user_email = ''demo@example.com'',
                 user_name = None\<rparr>"

text \<open>\<open>middleware/auth.js\<close>: everything after \<open>return next()\<close> is commented out.\<close>

definition auth :: "request \<Rightarrow> console list \<times> handled" where
  "auth req = ([LogAuthBypassed], Next (req\<lparr>req_user := Some demo_user\<rparr>))"

text \<open>
  \<open>middleware/auth.middleware.js\<close>. \<open>!token\<close> holds for a missing header (\<open>None\<close>) and
  for an empty one. The environment gives \<open>NODE_ENV\<close> and \<open>JWT_SECRET\<close>; \<open>jwt.verify\<close> belongs to
  the jsonwebtoken package and is a parameter: it throws (\<open>Inl\<close> the error's message) or
  returns the decoded payload, of which the middleware reads the field \<open>user\<close>.
\<close>

record env =
  NODE_ENV :: "string option"
  JWT_SECRET :: "string option"

definition jwt_secret :: "env \<Rightarrow> string" where
  "jwt_secret e = (case JWT_SECRET e of None \<Rightarrow> ''default_secret_key''
                   | Some s \<Rightarrow> if s = [] then ''default_secret_key'' else s)"

definition auth_middleware ::
  "env \<Rightarrow> (string \<Rightarrow> string \<Rightarrow> string + user option) \<Rightarrow> request \<Rightarrow> console list \<times> handled" where
  "auth_middleware e jwt_verify req =
    (case x_auth_token req of
       None \<Rightarrow>
         ([], Respond \<lparr>status = 401, message = ''No token, authorization denied'',
                        error_field = None, warning_field = None\<rparr>)
     | Some tok \<Rightarrow>
         if tok = [] then
           ([], Respond \<lparr>status = 401, message = ''No token, authorization denied'',
                          error_field = None, warning_field = None\<rparr>)
         else if NODE_ENV e \<noteq> Some ''production'' then
           ([LogDevMockUser], Next (req\<lparr>req_user := Some mock_user\<rparr>))
         else
           (case jwt_verify tok (jwt_secret e) of
              Inr decoded_user \<Rightarrow> ([], Next (req\<lparr>req_user := decoded_user\<rparr>))
            | Inl msg \<Rightarrow>
                ([ErrAuthMiddleware msg],
                 Respond \<lparr>status = 401, message = ''Token is not valid'',
                          error_field = None, warning_field = None\<rparr>)))"

text \<open>
  The server's global bypass. \<open>global.authBypassLogged\<close> is the only state: the handler
  logs once and sets the flag.
\<close>

definition global_auth_bypass :: "bool \<Rightarrow> request \<Rightarrow> console list \<times> bool \<times> handled" where
  "global_auth_bypass authBypassLogged req =
    (if \<not> authBypassLogged
     then ([LogGlobalBypassEnabled], True, Next (req\<lparr>req_user := Some demo_user\<rparr>))
     else ([], authBypassLogged, Next (req\<lparr>req_user := Some demo_user\<rparr>)))"

text \<open>
  The Express error-handling middleware of the server. An error object is its \<open>name\<close>,
  \<open>message\<close> and \<open>stack\<close>.
\<close>

record js_error =
  err_name :: string
  err_message :: string
  err_stack :: string

definition error_handler :: "env \<Rightarrow> js_error \<Rightarrow> console list \<times> json_error" where
  "error_handler e err =
    (if err_name err = ''MongoError'' \<or> err_name err = ''MongoNetworkError'' then
       ([ErrStack (err_stack err), LogMongoMemoryOnly],
        \<lparr>status = 200, message = ''Operation succeeded (memory-only mode)'',
         error_field = None,
         warning_field = Some ''Database unavailable, changes will not persist''\<rparr>)
     else
       ([ErrStack (err_stack err)],
        \<lparr>status = 500, message = ''Something went wrong!'',
         error_field = Some (if NODE_ENV e = Some ''development'' then err_message err
                             else ''Internal server error''),
         warning_field = None\<rparr>))"

section \<open>JavaScript values\<close>

text \<open>
  A JavaScript number is a finite value, an infinity or NaN. Finite values are modelled as
  reals: rounding to the nearest double, overflow and the sign of zero are not modelled.
  The arithmetic below follows IEEE 754 on the special values.
\<close>

datatype jsnum = Fin real | PosInf | NegInf | NaN

fun jneg :: "jsnum \<Rightarrow> jsnum" where
  "jneg (Fin x) = Fin (- x)"
| "jneg PosInf = NegInf"
| "jneg NegInf = PosInf"
| "jneg NaN = NaN"

fun jadd :: "jsnum \<Rightarrow> jsnum \<Rightarrow> jsnum" where
  "jadd (Fin x) (Fin y) = Fin (x + y)"
| "jadd NaN _ = NaN"
| "jadd _ NaN = NaN"
| "jadd PosInf NegInf = NaN"
| "jadd NegInf PosInf = NaN"
| "jadd PosInf _ = PosInf"
| "jadd NegInf _ = NegInf"
| "jadd _ PosInf = PosInf"
| "jadd _ NegInf = NegInf"

definition jsub :: "jsnum \<Rightarrow> jsnum \<Rightarrow> jsnum" where
  "jsub a b = jadd a (jneg b)"

text \<open>The sign of a non-NaN number: \<open>-1\<close>, \<open>0\<close> or \<open>1\<close>.\<close>

fun jsign :: "jsnum \<Rightarrow> int" where
  "jsign (Fin x) = (if x < 0 then - 1 else if x = 0 then 0 else 1)"
| "jsign PosInf = 1"
| "jsign NegInf = - 1"
| "jsign NaN = 0"

definition signed_inf :: "int \<Rightarrow> jsnum" where
  "signed_inf s = (if s < 0 then NegInf else PosInf)"

fun jmul :: "jsnum \<Rightarrow> jsnum \<Rightarrow> jsnum" where
  "jmul (Fin x) (Fin y) = Fin (x * y)"
| "jmul NaN _ = NaN"
| "jmul _ NaN = NaN"
| "jmul a b = (if jsign a = 0 \<or> jsign b = 0 then NaN else signed_inf (jsign a * jsign b))"

fun jdiv :: "jsnum \<Rightarrow> jsnum \<Rightarrow> jsnum" where
  "jdiv (Fin x) (Fin y) =
     (if y \<noteq> 0 then Fin (x / y) else if x = 0 then NaN else signed_inf (jsign (Fin x)))"
| "jdiv NaN _ = NaN"
| "jdiv _ NaN = NaN"
| "jdiv (Fin x) _ = Fin 0"
| "jdiv a (Fin y) = signed_inf (jsign a * (if y < 0 then - 1 else 1))"
| "jdiv _ _ = NaN"

fun jsqrt :: "jsnum \<Rightarrow> jsnum" where
  "jsqrt (Fin x) = (if x < 0 then NaN else Fin (sqrt x))"
| "jsqrt PosInf = PosInf"
| "jsqrt NegInf = NaN"
| "jsqrt NaN = NaN"

text \<open>\<open>Math.pow(x, 2)\<close>.\<close>

fun jsquare :: "jsnum \<Rightarrow> jsnum" where
  "jsquare (Fin x) = Fin (x ^ 2)"
| "jsquare NaN = NaN"
| "jsquare _ = PosInf"


text \<open>
  The comparison \<open>a < b\<close> of two numbers: \<open>None\<close> is the result \<open>undefined\<close> a NaN operand
  gives; \<open>a > b\<close> is \<open>b < a\<close> and \<open>a >= b\<close> is "\<open>a < b\<close> is false".
\<close>

fun jless :: "jsnum \<Rightarrow> jsnum \<Rightarrow> bool option" where
  "jless NaN _ = None"
| "jless _ NaN = None"
| "jless (Fin x) (Fin y) = Some (x < y)"
| "jless PosInf _ = Some False"
| "jless _ NegInf = Some False"
| "jless NegInf _ = Some True"
| "jless _ PosInf = Some True"

definition jlt :: "jsnum \<Rightarrow> jsnum \<Rightarrow> bool" where
  "jlt a b = (jless a b = Some True)"

definition jgt :: "jsnum \<Rightarrow> jsnum \<Rightarrow> bool" where
  "jgt a b = (jless b a = Some True)"

definition jge :: "jsnum \<Rightarrow> jsnum \<Rightarrow> bool" where
  "jge a b = (jless a b = Some False)"

text \<open>
  The values a field of a parsed JSON body can hold, arrays and objects apart (the
  controllers below read scalar fields), and \<open>undefined\<close> for a field that is absent.
\<close>

datatype jsval = JUndefined | JNull | JBool bool | JNum jsnum | JStr string

fun truthy :: "jsval \<Rightarrow> bool" where
  "truthy JUndefined = False"
| "truthy JNull = False"
| "truthy (JBool b) = b"
| "truthy (JNum (Fin x)) = (x \<noteq> 0)"
| "truthy (JNum NaN) = False"
| "truthy (JNum _) = True"
| "truthy (JStr s) = (s \<noteq> [])"

text \<open>
  \<open>Number(v)\<close>. The conversion of a string (ECMAScript's StringToNumber) is a parameter
  \<open>str_num\<close> of the model.
\<close>

fun to_number :: "(string \<Rightarrow> jsnum) \<Rightarrow> jsval \<Rightarrow> jsnum" where
  "to_number str_num JUndefined = NaN"
| "to_number str_num JNull = Fin 0"
| "to_number str_num (JBool b) = Fin (if b then 1 else 0)"
| "to_number str_num (JNum n) = n"
| "to_number str_num (JStr s) = str_num s"

definition isNaN :: "(string \<Rightarrow> jsnum) \<Rightarrow> jsval \<Rightarrow> bool" where
  "isNaN str_num v = (to_number str_num v = NaN)"

text \<open>Strings compare by code units, a proper prefix being smaller.\<close>

fun str_less :: "string \<Rightarrow> string \<Rightarrow> bool" where
  "str_less [] [] = False"
| "str_less [] (y # ys) = True"
| "str_less (x # xs) [] = False"
| "str_less (x # xs) (y # ys) =
     (if (of_char x :: nat) < of_char y then True
      else if (of_char y :: nat) < of_char x then False
      else str_less xs ys)"

text \<open>\<open>a >= b\<close>: two strings compare as strings, anything else as numbers.\<close>

fun js_ge :: "(string \<Rightarrow> jsnum) \<Rightarrow> jsval \<Rightarrow> jsval \<Rightarrow> bool" where
  "js_ge str_num (JStr s) (JStr t) = (\<not> str_less s t)"
| "js_ge str_num a b = jge (to_number str_num a) (to_number str_num b)"

section \<open>Binary64 arithmetic\<close>

text \<open>
  A JavaScript number is an IEEE 754 binary64 value, and every arithmetic operation
  returns the exact result rounded to the nearest such value, a tie going to the even
  significand. \<open>binary64 x\<close> is the number that the exact result \<open>x\<close> is rounded to:
  \<open>binade x\<close> is the exponent of \<open>x\<close> (that of the smallest normal number for a smaller
  \<open>x\<close>, which gives the subnormal numbers their spacing), \<open>ulp x\<close> the distance of two
  neighbouring values at that exponent, and a result that rounds to \<open>2\<^sup>1\<^sup>0\<^sup>2\<^sup>4\<close> or beyond
  is an infinity. The sign of a zero is not modelled.
\<close>

definition round_even :: "real \<Rightarrow> int" where
  "round_even y =
     (let f = \<lfloor>y\<rfloor>
      in if y - of_int f < 1 / 2 then f
         else if 1 / 2 < y - of_int f then f + 1
         else if even f then f else f + 1)"

definition binade :: "real \<Rightarrow> int" where
  "binade x = max \<lfloor>log 2 \<bar>x\<bar>\<rfloor> (- 1022)"

definition ulp :: "real \<Rightarrow> real" where
  "ulp x = 2 powr of_int (binade x - 52)"

definition nearest64 :: "real \<Rightarrow> real" where
  "nearest64 x = (if x = 0 then 0 else of_int (round_even (x / ulp x)) * ulp x)"

definition binary64 :: "real \<Rightarrow> jsnum" where
  "binary64 x =
     (if 2 ^ 1024 \<le> nearest64 x then PosInf
      else if nearest64 x \<le> - (2 ^ 1024) then NegInf
      else Fin (nearest64 x))"

text \<open>
  The arithmetic of the volatility and value-at-risk computations takes the rounding
  \<open>rd\<close> of an exact result as its first argument. The program runs with \<open>binary64\<close>;
  \<open>exact\<close>, which rounds nothing, is the arithmetic of the reals, in which the formulas
  of the specification are stated. On the special values the operations follow IEEE 754.
  \<open>Math.sqrt\<close> and \<open>Math.pow(x, 2)\<close> are taken to return the rounded exact result.
\<close>

type_synonym rounding = "real \<Rightarrow> jsnum"

definition exact :: rounding where
  "exact x = Fin x"

fun radd :: "rounding \<Rightarrow> jsnum \<Rightarrow> jsnum \<Rightarrow> jsnum" where
  "radd rd (Fin x) (Fin y) = rd (x + y)"
| "radd rd NaN _ = NaN"
| "radd rd _ NaN = NaN"
| "radd rd PosInf NegInf = NaN"
| "radd rd NegInf PosInf = NaN"
| "radd rd PosInf _ = PosInf"
| "radd rd NegInf _ = NegInf"
| "radd rd _ PosInf = PosInf"
| "radd rd _ NegInf = NegInf"

definition rsub :: "rounding \<Rightarrow> jsnum \<Rightarrow> jsnum \<Rightarrow> jsnum" where
  "rsub rd a b = radd rd a (jneg b)"

fun rmul :: "rounding \<Rightarrow> jsnum \<Rightarrow> jsnum \<Rightarrow> jsnum" where
  "rmul rd (Fin x) (Fin y) = rd (x * y)"
| "rmul rd NaN _ = NaN"
| "rmul rd _ NaN = NaN"
| "rmul rd a b = (if jsign a = 0 \<or> jsign b = 0 then NaN else signed_inf (jsign a * jsign b))"

fun rdiv :: "rounding \<Rightarrow> jsnum \<Rightarrow> jsnum \<Rightarrow> jsnum" where
  "rdiv rd (Fin x) (Fin y) =
     (if y \<noteq> 0 then rd (x / y) else if x = 0 then NaN else signed_inf (jsign (Fin x)))"
| "rdiv rd NaN _ = NaN"
| "rdiv rd _ NaN = NaN"
| "rdiv rd (Fin x) _ = Fin 0"
| "rdiv rd a (Fin y) = signed_inf (jsign a * (if y < 0 then - 1 else 1))"
| "rdiv rd _ _ = NaN"

text \<open>\<open>Math.sqrt(x)\<close> and \<open>Math.pow(x, 2)\<close>.\<close>

fun rsqrt :: "rounding \<Rightarrow> jsnum \<Rightarrow> jsnum" where
  "rsqrt rd (Fin x) = (if x < 0 then NaN else rd (sqrt x))"
| "rsqrt rd PosInf = PosInf"
| "rsqrt rd NegInf = NaN"
| "rsqrt rd NaN = NaN"

fun rsquare :: "rounding \<Rightarrow> jsnum \<Rightarrow> jsnum" where
  "rsquare rd (Fin x) = rd (x * x)"
| "rsquare rd NaN = NaN"
| "rsquare rd _ = PosInf"

text \<open>\<open>Math.floor\<close>: the floor of a binary64 value is one, so nothing is rounded.\<close>

fun jfloor :: "jsnum \<Rightarrow> jsnum" where
  "jfloor (Fin x) = Fin (of_int \<lfloor>x\<rfloor>)"
| "jfloor n = n"

section \<open>The privacy controller: generateProof\<close>

text \<open>
  \<open>POST /api/privacy/generate-proof\<close>. The request is \<open>req.user\<close> and the field
  \<open>statement\<close> of the body: \<open>None\<close> is a falsy statement (absent, \<open>null\<close>, \<open>false\<close>,
  \<open>0\<close>, the empty string); any other statement is read through its four fields, which
  are \<open>undefined\<close> where it has none. The proof service (\<open>real-zk.service\<close>) is not part
  of the sources: its two operations are parameters that return a proof or throw
  (\<open>Inl\<close> the error's message).
\<close>

record statement_obj =
  st_type :: jsval
  st_value :: jsval
  st_min :: jsval
  st_max :: jsval

record proof_request =
  pr_user :: "user option"
  pr_statement :: "statement_obj option"

datatype 'p reply = Json 'p | Failed json_error

definition bad_request :: "string \<Rightarrow> 'p reply" where
  "bad_request m = Failed \<lparr>status = 400, message = m, error_field = None, warning_field = None\<rparr>"

definition server_error :: "string \<Rightarrow> console list \<times> 'p reply" where
  "server_error m =
     ([ErrGeneratingProof m],
      Failed \<lparr>status = 500, message = ''Server error'', error_field = Some m,
              warning_field = None\<rparr>)"

text \<open>
  The message of the TypeError that reading \<open>req.user.id\<close> throws when \<open>req.user\<close> is
  undefined, as Node prints it (the property name stands between single quotes).
\<close>

definition type_error_user_id :: string where
  "type_error_user_id =
     ''Cannot read properties of undefined (reading '' @ [CHR 0x27] @ ''id'' @ [CHR 0x27] @ '')''"

definition generateProof ::
  "(string \<Rightarrow> jsnum \<Rightarrow> string + 'p) \<Rightarrow> (string \<Rightarrow> jsnum \<Rightarrow> jsnum \<Rightarrow> jsnum \<Rightarrow> string + 'p) \<Rightarrow>
   (string \<Rightarrow> jsnum) \<Rightarrow> proof_request \<Rightarrow> console list \<times> 'p reply" where
  "generateProof generateEqualityProof generateRangeProof str_num req =
    (case pr_user req of
       None \<Rightarrow> server_error type_error_user_id
     | Some u \<Rightarrow>
        (case pr_statement req of
           None \<Rightarrow> ([], bad_request ''Valid statement object is required'')
         | Some st \<Rightarrow>
            if st_type st = JStr ''equality'' then
              if \<not> truthy (st_value st) \<or> isNaN str_num (st_value st) then
                ([], bad_request ''Valid numeric value is required for equality proof'')
              else
                (case generateEqualityProof (user_id u) (to_number str_num (st_value st)) of
                   Inl m \<Rightarrow> server_error m
                 | Inr prf \<Rightarrow> ([], Json prf))
            else if st_type st = JStr ''range'' then
              if \<not> truthy (st_min st) \<or> isNaN str_num (st_min st) \<or>
                 \<not> truthy (st_max st) \<or> isNaN str_num (st_max st) then
                ([], bad_request ''Valid min and max values are required for range proof'')
              else if js_ge str_num (st_min st) (st_max st) then
                ([], bad_request ''Min value must be less than max value'')
              else if \<not> truthy (st_value st) \<or> isNaN str_num (st_value st) then
                ([], bad_request ''Valid numeric value is required for range proof'')
              else
                (case generateRangeProof (user_id u) (to_number str_num (st_value st))
                        (to_number str_num (st_min st)) (to_number str_num (st_max st)) of
                   Inl m \<Rightarrow> server_error m
                 | Inr prf \<Rightarrow> ([], Json prf))
            else
              ([], bad_request ''Invalid proof type. Supported types: equality, range'')))"

section \<open>The privacy service: the in-memory proof store\<close>

text \<open>
  \<open>mockProofs\<close> is a plain object (\<open>{}\<close>) used as a dictionary. Reading \<open>mockProofs[k]\<close>
  finds an own property, or else a property inherited from \<open>Object.prototype\<close>: for
  the names below the read yields a function (or the prototype object itself), which is
  truthy and has none of a proof's fields. Writes and \<open>delete\<close> act on own properties.
\<close>

definition object_prototype_keys :: "string list" where
  "object_prototype_keys =
     [''constructor'', ''__proto__'', ''hasOwnProperty'', ''isPrototypeOf'',
      ''propertyIsEnumerable'', ''toString'', ''toLocaleString'', ''valueOf'',
      ''__defineGetter__'', ''__defineSetter__'', ''__lookupGetter__'', ''__lookupSetter__'']"

datatype 'a slot = Own 'a | Inherited | Absent

definition js_get :: "(string \<rightharpoonup> 'a) \<Rightarrow> string \<Rightarrow> 'a slot" where
  "js_get obj k =
     (case obj k of
        Some v \<Rightarrow> Own v
      | None \<Rightarrow> if k \<in> set object_prototype_keys then Inherited else Absent)"

text \<open>Decimal rendering of a non-negative integer, as a template literal prints it.\<close>

fun show_nat :: "nat \<Rightarrow> string" where
  "show_nat n =
     (if n < 10 then [char_of (48 + n)]
      else show_nat (n div 10) @ [char_of (48 + n mod 10)])"

declare show_nat.simps [simp del]

definition show_int :: "int \<Rightarrow> string" where
  "show_int i = (if i < 0 then CHR ''-'' # show_nat (nat (- i)) else show_nat (nat i))"

text \<open>
  A statement as \<open>generateZKProof\<close> reads it: the fields \<open>type\<close>, \<open>condition\<close> and
  \<open>threshold\<close>. Times are milliseconds since the epoch; \<open>toISOString\<close> and the \<open>Date\<close>
  constructor that parses its output back are inverse to each other at millisecond
  precision and are not modelled. A public signal is the string \<open>'0'\<close> or the result of
  \<open>toString\<close> on a value. The constant fields \<open>proof\<close> (the fixed \<open>pi_a\<close>, \<open>pi_b\<close>,
  \<open>pi_c\<close> strings) and \<open>verificationKey\<close> of a stored proof are left out.
\<close>

record statement =
  stmt_type :: jsval
  stmt_condition :: jsval
  stmt_threshold :: jsval

datatype signal = Zero | ToString jsval

record zk_proof =
  proof_id :: string
  proof_userId :: string
  proof_statement :: statement
  publicSignals :: "signal list"
  createdAt :: int
  expiresAt :: int

type_synonym proof_store = "string \<rightharpoonup> zk_proof"

text \<open>\<open>a || b\<close> on values.\<close>

definition js_or :: "jsval \<Rightarrow> jsval \<Rightarrow> jsval" where
  "js_or a b = (if truthy a then a else b)"

definition thirty_days :: int where
  "thirty_days = 30 * 24 * 60 * 60 * 1000"

record generated =
  gen_success :: bool
  gen_proofId :: string
  gen_statement :: statement
  gen_createdAt :: int
  gen_expiresAt :: int
  gen_shareableLink :: string

text \<open>
  \<open>generateZKProof\<close>: the body of the timer callback. It reads the clock three times
  (\<open>clock 0\<close> for the id, \<open>clock 1\<close> for \<open>createdAt\<close>, \<open>clock 2\<close> for \<open>expiresAt\<close>) and draws one
  random number \<open>r\<close> from \<open>Math.random()\<close>.
\<close>

definition generateZKProof ::
  "proof_store \<Rightarrow> (nat \<Rightarrow> int) \<Rightarrow> real \<Rightarrow> string \<Rightarrow> statement \<Rightarrow> proof_store \<times> generated" where
  "generateZKProof mockProofs clock r userId st =
    (let proofId = ''proof_'' @ show_int (clock 0) @ ''_'' @ show_int \<lfloor>r * 10000\<rfloor>;
         prf = \<lparr>proof_id = proofId, proof_userId = userId, proof_statement = st,
                publicSignals =
                  [if stmt_type st = JStr ''creditScore''
                   then ToString (js_or (stmt_threshold st) (JNum (Fin 700))) else Zero,
                   if stmt_type st = JStr ''accountBalance''
                   then ToString (js_or (stmt_threshold st) (JNum (Fin 1000))) else Zero,
                   if stmt_type st = JStr ''transactionVolume''
                   then ToString (js_or (stmt_threshold st) (JNum (Fin 5000))) else Zero],
                createdAt = clock 1,
                expiresAt = clock 2 + thirty_days\<rparr>
     in (mockProofs(proofId \<mapsto> prf),
         \<lparr>gen_success = True, gen_proofId = proofId, gen_statement = st,
          gen_createdAt = createdAt prf, gen_expiresAt = expiresAt prf,
          gen_shareableLink = ''https://aries.finance/verify/'' @ proofId\<rparr>))"

text \<open>
  \<open>verifyZKProof\<close>. It reads the clock twice: \<open>clock 0\<close> for the expiry check and
  \<open>clock 1\<close> for \<open>verifiedAt\<close>. For an inherited name the value read is truthy, its
  \<open>expiresAt\<close> is \<open>undefined\<close>, the date built from it is invalid and compares false
  against every time, and the result carries an undefined statement and expiry.
\<close>

record verification =
  success :: bool
  verified :: "bool option"
  ver_error :: "string option"
  expirationDate :: "int option"
  ver_statement :: "statement option"
  verifiedAt :: "int option"
  ver_expiresAt :: "int option"

definition verify_failed :: "string \<Rightarrow> int option \<Rightarrow> verification" where
  "verify_failed e d =
     \<lparr>success = False, verified = None, ver_error = Some e, expirationDate = d,
      ver_statement = None, verifiedAt = None, ver_expiresAt = None\<rparr>"

definition verify_ok :: "statement option \<Rightarrow> int \<Rightarrow> int option \<Rightarrow> verification" where
  "verify_ok st t e =
     \<lparr>success = True, verified = Some True, ver_error = None, expirationDate = None,
      ver_statement = st, verifiedAt = Some t, ver_expiresAt = e\<rparr>"

definition verifyZKProof :: "proof_store \<Rightarrow> (nat \<Rightarrow> int) \<Rightarrow> string \<Rightarrow> verification" where
  "verifyZKProof mockProofs clock proofId =
    (case js_get mockProofs proofId of
       Absent \<Rightarrow> verify_failed ''Proof not found'' None
     | Inherited \<Rightarrow> verify_ok None (clock 1) None
     | Own prf \<Rightarrow>
         if expiresAt prf < clock 0
         then verify_failed ''Proof has expired'' (Some (expiresAt prf))
         else verify_ok (Some (proof_statement prf)) (clock 1) (Some (expiresAt prf)))"

text \<open>
  \<open>revokeZKProof\<close>. An inherited value has no \<open>userId\<close>, so the ownership test fails for
  every user id (a string).
\<close>

record revocation =
  rev_success :: bool
  rev_error :: "string option"
  rev_message :: "string option"

definition revokeZKProof :: "proof_store \<Rightarrow> string \<Rightarrow> string \<Rightarrow> proof_store \<times> revocation" where
  "revokeZKProof mockProofs userId proofId =
    (case js_get mockProofs proofId of
       Absent \<Rightarrow>
         (mockProofs, \<lparr>rev_success = False, rev_error = Some ''Proof not found'', rev_message = None\<rparr>)
     | Inherited \<Rightarrow>
         (mockProofs, \<lparr>rev_success = False,
                       rev_error = Some ''Unauthorized: You do not own this proof'',
                       rev_message = None\<rparr>)
     | Own prf \<Rightarrow>
         if proof_userId prf \<noteq> userId then
           (mockProofs, \<lparr>rev_success = False,
                         rev_error = Some ''Unauthorized: You do not own this proof'',
                         rev_message = None\<rparr>)
         else
           (mockProofs(proofId := None),
            \<lparr>rev_success = True, rev_error = None,
             rev_message = Some ''Proof revoked successfully''\<rparr>))"


text \<open>A sequence of later revocations, each by a user id and a proof id.\<close>

fun revoke_all :: "proof_store \<Rightarrow> (string \<times> string) list \<Rightarrow> proof_store" where
  "revoke_all mockProofs [] = mockProofs"
| "revoke_all mockProofs ((userId, proofId) # later) =
     revoke_all (fst (revokeZKProof mockProofs userId proofId)) later"

section \<open>The risk service\<close>

text \<open>
  The service draws from \<open>Math.random()\<close>: the model takes the sequence \<open>rnd\<close> of the
  numbers the calls return, in the order of the calls, and each function returns the
  sequence that is left. Where the source only adds, subtracts and multiplies finite
  numbers the model computes in the reals; where it divides, takes a root or compares a
  quotient it computes in \<open>jsnum\<close>. One clock reading \<open>now\<close> stands for the
  \<open>new Date()\<close> calls of one service call.
\<close>

type_synonym rng = "nat \<Rightarrow> real"

definition rest :: "rng \<Rightarrow> rng" where
  "rest rnd = (\<lambda>n. rnd (Suc n))"

datatype js_exception = TypeError

record tx =
  tx_type :: string
  contract :: string
  tx_value :: real
  tx_timestamp :: string
















text \<open>
  The risk controller calls the service only with an address that matches
  \<open>/^0x[a-fA-F0-9]{40}$/\<close>.
\<close>

definition is_hex_char :: "char \<Rightarrow> bool" where
  "is_hex_char c =
     (let n = (of_char c :: nat)
      in (48 \<le> n \<and> n \<le> 57) \<or> (65 \<le> n \<and> n \<le> 70) \<or> (97 \<le> n \<and> n \<le> 102))"

definition valid_eth_address :: "string \<Rightarrow> bool" where
  "valid_eth_address a = (length a = 42 \<and> take 2 a = ''0x'' \<and> list_all is_hex_char (drop 2 a))"

subsection \<open>Volatility\<close>

text \<open>
  A price point is a time stamp and a price. A time stamp is a string that \<open>new Date\<close>
  reads as a date: a literal of the mock table, or the \<open>toISOString()\<close> of the date that
  \<open>setDate(getDate() - n)\<close> gives from a clock reading (kept symbolic).
\<close>

datatype timestamp = IsoString string | DaysBefore int nat

record price_point =
  timestamp :: timestamp
  price :: real

definition btc_prices :: "price_point list" where
  "btc_prices =
     [\<lparr>timestamp = IsoString ''2025-04-01T00:00:00Z'', price = 85000\<rparr>,
      \<lparr>timestamp = IsoString ''2025-04-02T00:00:00Z'', price = 86500\<rparr>,
      \<lparr>timestamp = IsoString ''2025-04-03T00:00:00Z'', price = 84200\<rparr>,
      \<lparr>timestamp = IsoString ''2025-04-04T00:00:00Z'', price = 87000\<rparr>,
      \<lparr>timestamp = IsoString ''2025-04-05T00:00:00Z'', price = 88500\<rparr>,
      \<lparr>timestamp = IsoString ''2025-04-06T00:00:00Z'', price = 89200\<rparr>,
      \<lparr>timestamp = IsoString ''2025-04-07T00:00:00Z'', price = 90100\<rparr>,
      \<lparr>timestamp = IsoString ''2025-04-08T00:00:00Z'', price = 91500\<rparr>,
      \<lparr>timestamp = IsoString ''2025-04-09T00:00:00Z'', price = 89800\<rparr>,
      \<lparr>timestamp = IsoString ''2025-04-10T00:00:00Z'', price = 92000\<rparr>,
      \<lparr>timestamp = IsoString ''2025-04-11T00:00:00Z'', price = 93500\<rparr>,
      \<lparr>timestamp = IsoString ''2025-04-12T00:00:00Z'', price = 94200\<rparr>,
      \<lparr>timestamp = IsoString ''2025-04-13T00:00:00Z'', price = 92800\<rparr>,
      \<lparr>timestamp = IsoString ''2025-04-14T00:00:00Z'', price = 95000\<rparr>]"

definition eth_prices :: "price_point list" where
  "eth_prices =
     [\<lparr>timestamp = IsoString ''2025-04-01T00:00:00Z'', price = 5200\<rparr>,
      \<lparr>timestamp = IsoString ''2025-04-02T00:00:00Z'', price = 5350\<rparr>,
      \<lparr>timestamp = IsoString ''2025-04-03T00:00:00Z'', price = 5100\<rparr>,
      \<lparr>timestamp = IsoString ''2025-04-04T00:00:00Z'', price = 5400\<rparr>,
      \<lparr>timestamp = IsoString ''2025-04-05T00:00:00Z'', price = 5600\<rparr>,
      \<lparr>timestamp = IsoString ''2025-04-06T00:00:00Z'', price = 5800\<rparr>,
      \<lparr>timestamp = IsoString ''2025-04-07T00:00:00Z'', price = 5750\<rparr>,
      \<lparr>timestamp = IsoString ''2025-04-08T00:00:00Z'', price = 5900\<rparr>,
      \<lparr>timestamp = IsoString ''2025-04-09T00:00:00Z'', price = 5650\<rparr>,
      \<lparr>timestamp = IsoString ''2025-04-10T00:00:00Z'', price = 6000\<rparr>,
      \<lparr>timestamp = IsoString ''2025-04-11T00:00:00Z'', price = 6200\<rparr>,
      \<lparr>timestamp = IsoString ''2025-04-12T00:00:00Z'', price = 6350\<rparr>,
      \<lparr>timestamp = IsoString ''2025-04-13T00:00:00Z'', price = 6100\<rparr>,
      \<lparr>timestamp = IsoString ''2025-04-14T00:00:00Z'', price = 6500\<rparr>]"

definition aries_prices :: "price_point list" where
  "aries_prices =
     [\<lparr>timestamp = IsoString ''2025-04-01T00:00:00Z'', price = 2.5\<rparr>,
      \<lparr>timestamp = IsoString ''2025-04-02T00:00:00Z'', price = 2.8\<rparr>,
      \<lparr>timestamp = IsoString ''2025-04-03T00:00:00Z'', price = 2.3\<rparr>,
      \<lparr>timestamp = IsoString ''2025-04-04T00:00:00Z'', price = 3.1\<rparr>,
      \<lparr>timestamp = IsoString ''2025-04-05T00:00:00Z'', price = 3.5\<rparr>,
      \<lparr>timestamp = IsoString ''2025-04-06T00:00:00Z'', price = 3.2\<rparr>,
      \<lparr>timestamp = IsoString ''2025-04-07T00:00:00Z'', price = 3.8\<rparr>,
      \<lparr>timestamp = IsoString ''2025-04-08T00:00:00Z'', price = 4.2\<rparr>,
      \<lparr>timestamp = IsoString ''2025-04-09T00:00:00Z'', price = 3.9\<rparr>,
      \<lparr>timestamp = IsoString ''2025-04-10T00:00:00Z'', price = 4.5\<rparr>,
      \<lparr>timestamp = IsoString ''2025-04-11T00:00:00Z'', price = 5.0\<rparr>,
      \<lparr>timestamp = IsoString ''2025-04-12T00:00:00Z'', price = 4.7\<rparr>,
      \<lparr>timestamp = IsoString ''2025-04-13T00:00:00Z'', price = 5.2\<rparr>,
      \<lparr>timestamp = IsoString ''2025-04-14T00:00:00Z'', price = 5.5\<rparr>]"

definition tokenPriceHistory :: "string \<rightharpoonup> price_point list" where
  "tokenPriceHistory = [''BTC'' \<mapsto> btc_prices, ''ETH'' \<mapsto> eth_prices, ''ARIES'' \<mapsto> aries_prices]"

text \<open>\<open>toUpperCase\<close> on the ASCII letters; any other character is left as it is.\<close>

definition ascii_lower :: string where
  "ascii_lower = ''abcdefghijklmnopqrstuvwxyz''"

definition ascii_upper :: string where
  "ascii_upper = ''ABCDEFGHIJKLMNOPQRSTUVWXYZ''"

definition to_upper_char :: "char \<Rightarrow> char" where
  "to_upper_char c = (case map_of (zip ascii_lower ascii_upper) c of Some u \<Rightarrow> u | None \<Rightarrow> c)"

definition toUpperCase :: "string \<Rightarrow> string" where
  "toUpperCase s = map to_upper_char s"

text \<open>\<open>xs.slice(-n)\<close> for a count \<open>n\<close>: the last \<open>n\<close> elements, and all of them for \<open>n = 0\<close>.\<close>

definition slice_last :: "nat \<Rightarrow> 'a list \<Rightarrow> 'a list" where
  "slice_last n xs = (if n = 0 then xs else drop (length xs - n) xs)"

record volatility =
  vol_token :: string
  currentPrice :: real
  volatilityDaily :: jsnum
  volatilityAnnualized :: jsnum
  volatilityLevel :: string
  maxDrawdown :: jsnum
  trend :: string
  priceChange :: jsnum
  vol_analysisDate :: int
  historicalPrices :: "price_point list"

text \<open>The loop that collects the daily returns, for \<open>i\<close> from 1.\<close>

fun daily_returns :: "price_point list \<Rightarrow> jsnum list" where
  "daily_returns (a # b # ps) =
     jdiv (Fin (price b - price a)) (Fin (price a)) # daily_returns (b # ps)"
| "daily_returns ps = []"

text \<open>The loop of the maximal drawdown; its state is \<open>peak\<close> and \<open>maxDrawdown\<close> (\<open>maxDd\<close>).\<close>

fun drawdown_loop :: "real \<Rightarrow> jsnum \<Rightarrow> price_point list \<Rightarrow> jsnum" where
  "drawdown_loop peak maxDd [] = maxDd"
| "drawdown_loop peak maxDd (p # ps) =
     (let peak' = (if price p > peak then price p else peak);
          drawdown = jdiv (Fin (peak' - price p)) (Fin peak')
      in drawdown_loop peak' (if jgt drawdown maxDd then drawdown else maxDd) ps)"

text \<open>
  \<open>calculateVolatilityMetrics\<close>. \<open>reduce\<close> is a left fold. Reading \<open>priceData[0].price\<close>
  of an empty series throws. The field \<open>historicalPrices\<close> keeps each point's time stamp
  in place of the day the source prints from it.
\<close>

definition calculateVolatilityMetrics ::
  "string \<Rightarrow> int \<Rightarrow> price_point list \<Rightarrow> js_exception + volatility" where
  "calculateVolatilityMetrics tokenSymbol now priceData =
    (let returns = daily_returns priceData;
         mean = jdiv (foldl (\<lambda>sum v. jadd sum v) (Fin 0) returns) (Fin (real (length returns)));
         variance = jdiv (foldl (\<lambda>sum v. jadd sum (jsquare (jsub v mean))) (Fin 0) returns)
                         (Fin (real (length returns)));
         stdDev = jsqrt variance;
         annualizedVolatility = jmul stdDev (jsqrt (Fin 365))
     in case priceData of
          [] \<Rightarrow> Inl TypeError
        | first # _ \<Rightarrow>
           (let recentPrices = slice_last 5 priceData;
                change = jdiv (Fin (price (last recentPrices) - price (hd recentPrices)))
                              (Fin (price (hd recentPrices)))
            in Inr \<lparr>vol_token = tokenSymbol,
                    currentPrice = price (last priceData),
                    volatilityDaily = stdDev,
                    volatilityAnnualized = annualizedVolatility,
                    volatilityLevel =
                      (if jgt annualizedVolatility (Fin 1.0) then ''Extreme''
                       else if jgt annualizedVolatility (Fin 0.5) then ''High''
                       else if jgt annualizedVolatility (Fin 0.25) then ''Medium''
                       else ''Low''),
                    maxDrawdown = drawdown_loop (price first) (Fin 0) priceData,
                    trend = (if jgt change (Fin 0) then ''Upward''
                             else if jlt change (Fin 0) then ''Downward'' else ''Stable''),
                    priceChange = jmul change (Fin 100),
                    vol_analysisDate = now,
                    historicalPrices = priceData\<rparr>))"

text \<open>
  The words of C4: the daily returns \<open>r\<^sub>i = (p\<^sub>i - p\<^sub>i\<^sub>-\<^sub>1) / p\<^sub>i\<^sub>-\<^sub>1\<close> of a series of prices, and
  the population standard deviation of a list of numbers.
\<close>

definition spec_daily_returns :: "real list \<Rightarrow> real list" where
  "spec_daily_returns p = map (\<lambda>i. (p ! i - p ! (i - 1)) / p ! (i - 1)) [1..<length p]"

definition spec_mean :: "real list \<Rightarrow> real" where
  "spec_mean rs = sum_list rs / real (length rs)"

definition population_std_dev :: "real list \<Rightarrow> real" where
  "population_std_dev rs =
     sqrt (sum_list (map (\<lambda>r. (r - spec_mean rs) ^ 2) rs) / real (length rs))"

text \<open>
  The loop of \<open>getTokenVolatility\<close> that fabricates prices for an unknown token; the
  argument counts the iterations left, which is the source's \<open>days - i\<close>.
\<close>

fun mock_loop :: "rng \<Rightarrow> int \<Rightarrow> real \<Rightarrow> nat \<Rightarrow> price_point list \<times> rng" where
  "mock_loop rnd now basePrice 0 = ([], rnd)"
| "mock_loop rnd now basePrice (Suc k) =
     (let randomChange = (rnd 0 * 2 - 1) * 0.1;
          p = \<lparr>timestamp = DaysBefore now (Suc k), price = basePrice * (1 + randomChange)\<rparr>;
          (ps, rnd') = mock_loop (rest rnd) now basePrice k
      in (p # ps, rnd'))"

definition getTokenVolatility ::
  "rng \<Rightarrow> int \<Rightarrow> string \<Rightarrow> nat \<Rightarrow> (js_exception + volatility) \<times> rng" where
  "getTokenVolatility rnd now tokenSymbol days =
    (case js_get tokenPriceHistory (toUpperCase tokenSymbol) of
       Own priceData \<Rightarrow>
         (calculateVolatilityMetrics tokenSymbol now (slice_last days priceData), rnd)
     | Inherited \<Rightarrow> (Inl TypeError, rnd)
     | Absent \<Rightarrow>
         (let basePrice = 10 + rnd 0 * 90;
              (mockData, rnd') = mock_loop (rest rnd) now basePrice days
          in (calculateVolatilityMetrics tokenSymbol now mockData, rnd')))"

subsection \<open>Value at risk\<close>

record holding =
  token :: string
  amount :: real

record token_volatility =
  tv_token :: string
  tv_volatility :: jsnum
  tv_weight :: jsnum

record var_horizon =
  var_amount :: jsnum
  var_percentage :: jsnum

record var_holding =
  vh_token :: string
  vh_amount :: real
  vh_volatility :: jsnum
  vh_weight :: jsnum

record var_result =
  portfolioValue :: real
  confidenceLevel :: real
  dailyVaR :: var_horizon
  weeklyVaR :: var_horizon
  monthlyVaR :: var_horizon
  var_riskLevel :: string
  var_analysisDate :: int
  var_holdings :: "var_holding list"

text \<open>
  The \<open>reduce\<close> that values the portfolio (\<open>acc\<close> is its accumulator \<open>total\<close>): a token
  of the table is priced at its last point, any other at a random price.
\<close>

fun portfolio_value :: "rng \<Rightarrow> real \<Rightarrow> holding list \<Rightarrow> js_exception + real \<times> rng" where
  "portfolio_value rnd acc [] = Inr (acc, rnd)"
| "portfolio_value rnd acc (h # hs) =
     (case js_get tokenPriceHistory (toUpperCase (token h)) of
        Own tokenData \<Rightarrow>
          (case tokenData of
             [] \<Rightarrow> Inl TypeError
           | _ # _ \<Rightarrow> portfolio_value rnd (acc + amount h * price (last tokenData)) hs)
      | Inherited \<Rightarrow> Inl TypeError
      | Absent \<Rightarrow> portfolio_value (rest rnd) (acc + amount h * (10 + rnd 0 * 90)) hs)"

text \<open>
  The callbacks of \<open>holdings.map\<close> run in order, each calling \<open>getTokenVolatility\<close> with
  its default of 14 days; \<open>Promise.all\<close> then rejects with the first failure, if any.
\<close>

fun token_volatilities ::
  "rng \<Rightarrow> int \<Rightarrow> real \<Rightarrow> holding list \<Rightarrow> (js_exception + token_volatility) list" where
  "token_volatilities rnd now pv [] = []"
| "token_volatilities rnd now pv (h # hs) =
     (case getTokenVolatility rnd now (token h) 14 of
        (Inl e, rnd') \<Rightarrow> Inl e # token_volatilities rnd' now pv hs
      | (Inr volatilityData, rnd') \<Rightarrow>
          Inr \<lparr>tv_token = token h,
               tv_volatility = volatilityDaily volatilityData,
               tv_weight = jdiv (Fin (amount h * currentPrice volatilityData)) (Fin pv)\<rparr>
          # token_volatilities rnd' now pv hs)"

fun promise_all :: "('e + 'a) list \<Rightarrow> 'e + 'a list" where
  "promise_all [] = Inr []"
| "promise_all (Inl e # rs) = Inl e"
| "promise_all (Inr x # rs) = (case promise_all rs of Inl e \<Rightarrow> Inl e | Inr xs \<Rightarrow> Inr (x # xs))"

definition portfolio_volatility :: "token_volatility list \<Rightarrow> jsnum" where
  "portfolio_volatility tokenVolatilities =
     jsqrt (foldl (\<lambda>sum t. jadd sum (jsquare (jmul (tv_volatility t) (tv_weight t))))
                  (Fin 0) tokenVolatilities)"

definition zScore :: "real \<Rightarrow> real" where
  "zScore confidence = (if confidence = 0.99 then 2.326 else 1.645)"

definition horizon :: "jsnum \<Rightarrow> real \<Rightarrow> var_horizon" where
  "horizon v pv = \<lparr>var_amount = v, var_percentage = jmul (jdiv v (Fin pv)) (Fin 100)\<rparr>"

definition calculateVaR :: "rng \<Rightarrow> int \<Rightarrow> holding list \<Rightarrow> real \<Rightarrow> js_exception + var_result" where
  "calculateVaR rnd now holdings confidence =
    (case portfolio_value rnd 0 holdings of
       Inl e \<Rightarrow> Inl e
     | Inr (pv, rnd') \<Rightarrow>
        (case promise_all (token_volatilities rnd' now pv holdings) of
           Inl e \<Rightarrow> Inl e
         | Inr tokenVolatilities \<Rightarrow>
            (let portfolioVolatility = portfolio_volatility tokenVolatilities;
                 daily = jmul (jmul (Fin pv) portfolioVolatility) (Fin (zScore confidence));
                 weekly = jmul daily (jsqrt (Fin 7));
                 monthly = jmul daily (jsqrt (Fin 30))
             in Inr \<lparr>portfolioValue = pv,
                     confidenceLevel = confidence * 100,
                     dailyVaR = horizon daily pv,
                     weeklyVaR = horizon weekly pv,
                     monthlyVaR = horizon monthly pv,
                     var_riskLevel =
                       (if jgt (jdiv daily (Fin pv)) (Fin 0.05) then ''High''
                        else if jgt (jdiv daily (Fin pv)) (Fin 0.02) then ''Medium''
                        else ''Low''),
                     var_analysisDate = now,
                     var_holdings =
                       map (\<lambda>h. case find (\<lambda>v. tv_token v = token h) tokenVolatilities of
                                  Some v \<Rightarrow> \<lparr>vh_token = token h, vh_amount = amount h,
                                             vh_volatility = tv_volatility v,
                                             vh_weight = tv_weight v\<rparr>
                                | None \<Rightarrow> \<lparr>vh_token = token h, vh_amount = amount h,
                                           vh_volatility = Fin 0, vh_weight = Fin 0\<rparr>)
                           holdings\<rparr>)))"

section \<open>The mock banking service: getAccountTransactions\<close>













section \<open>Minting a credit score NFT\<close>

text \<open>Rendering an integer in base 16, as \<open>toString(16)\<close> does.\<close>

definition hex_digit :: "nat \<Rightarrow> char" where
  "hex_digit d = (if d < 10 then char_of (48 + d) else char_of (87 + d))"

fun show_hex_nat :: "nat \<Rightarrow> string" where
  "show_hex_nat n =
     (if n < 16 then [hex_digit n] else show_hex_nat (n div 16) @ [hex_digit (n mod 16)])"

declare show_hex_nat.simps [simp del]

definition show_hex :: "int \<Rightarrow> string" where
  "show_hex i = (if i < 0 then CHR ''-'' # show_hex_nat (nat (- i)) else show_hex_nat (nat i))"

text \<open>
  The time is a sequence \<open>clock\<close> of the readings \<open>Date.now()\<close> and \<open>new Date()\<close> give, in
  the order of the calls; \<open>clock_after k clock\<close> is the sequence after \<open>k\<close> readings.
\<close>

definition clock_after :: "nat \<Rightarrow> (nat \<Rightarrow> int) \<Rightarrow> nat \<Rightarrow> int" where
  "clock_after k clock = (\<lambda>n. clock (n + k))"

subsection \<open>The contract service\<close>

text \<open>
  \<open>mintCreditScoreNFT\<close> of the contract service draws \<open>rnd 0\<close> for the token id and
  \<open>rnd 1\<close> for the hash, and reads the clock for \<open>timestamp\<close> and for the attribute
  \<open>Timestamp\<close>. The product of the draw and 1000000 is rounded before \<open>Math.floor\<close> sees
  it. \<open>base16\<close> stands for \<open>Number.prototype.toString(16)\<close> and \<open>render\<close> for the
  conversion of a number to a string in a template literal.
\<close>

record nft_attributes =
  attr_score :: jsnum
  attr_rating :: string
  attr_timestamp :: int

record nft_result =
  nft_success :: bool
  nft_tokenId :: jsnum
  nft_address :: string
  nft_score :: jsnum
  nft_timestamp :: int
  nft_txHash :: string
  nft_imageUrl :: string
  nft_name :: string
  nft_description :: string
  nft_attributes :: nft_attributes

definition contract_mintCreditScoreNFT ::
  "(real \<Rightarrow> string) \<Rightarrow> (jsnum \<Rightarrow> string) \<Rightarrow> rng \<Rightarrow> (nat \<Rightarrow> int) \<Rightarrow> string \<Rightarrow> jsnum
   \<Rightarrow> nft_result" where
  "contract_mintCreditScoreNFT base16 render rnd clock address score =
    (let tokenId = jfloor (rmul binary64 (Fin (rnd 0)) (Fin 1000000));
         txHash = ''0x'' @ take 64 (drop 2 (base16 (rnd 1)))
     in \<lparr>nft_success = True,
         nft_tokenId = tokenId,
         nft_address = address,
         nft_score = score,
         nft_timestamp = clock 0,
         nft_txHash = txHash,
         nft_imageUrl = ''https://api.dicebear.com/7.x/shapes/svg?seed='' @ address @ render score,
         nft_name = ''Credit Score NFT #'' @ render tokenId,
         nft_description = ''This NFT represents a credit score of '' @ render score
                           @ '' for address '' @ address,
         nft_attributes =
           \<lparr>attr_score = score,
            attr_rating = (if jge score (Fin 800) then ''Excellent''
                           else if jge score (Fin 700) then ''Good''
                           else if jge score (Fin 600) then ''Fair'' else ''Poor''),
            attr_timestamp = clock 1\<rparr>\<rparr>)"

subsection \<open>The blockchain service\<close>

text \<open>
  The service loads the package \<open>ethers\<close>, if it is installed, and builds a provider, a
  wallet and the NFT contract when the module is loaded. What the package offers depends
  on its version. Up to version 5 the providers are members of \<open>ethers.providers\<close>:
  \<open>ethers.JsonRpcProvider\<close> and \<open>ethers.InfuraProvider\<close> are undefined there, and \<open>new\<close>
  on them throws. From version 6 on they are members of \<open>ethers\<close>, and the receipt that
  \<open>tx.wait()\<close> resolves with has the fields \<open>logs\<close> and \<open>hash\<close>; the fields \<open>events\<close> and
  \<open>transactionHash\<close>, which version 5 had, are undefined.
\<close>

datatype ethers_version = V5 | V6

text \<open>
  The settings the module reads from \<open>process.env\<close>, an unset one being the empty string
  (\<open>NETWORK\<close> is not empty: an unset or empty \<open>BLOCKCHAIN_NETWORK\<close> reads \<open>sepolia\<close>).
\<close>

record blockchain_env =
  NETWORK :: string
  INFURA_KEY :: string
  PRIVATE_KEY :: string
  NFT_CONTRACT_ADDRESS :: string

text \<open>
  What is outside the program: whether the constructors of version 6 throw on their
  arguments, what \<open>isAddress\<close> answers, if it does not throw, and what the chain does with
  a minting: \<open>mint\<close> or \<open>wait\<close> rejects, or \<open>wait\<close> resolves with null (\<open>None\<close>) or with a
  receipt, of which the hash, the block number and the \<open>Transfer\<close> events are kept.
\<close>

record transfer_event =
  event_name :: string
  args_tokenId :: string

record mined =
  mined_hash :: string
  mined_block :: int
  mined_events :: "transfer_event list"

record chain =
  new_JsonRpcProvider :: "string \<Rightarrow> string + unit"
  new_InfuraProvider :: "string \<Rightarrow> string \<Rightarrow> string + unit"
  new_Wallet :: "string \<Rightarrow> string + unit"
  new_Contract :: "string \<Rightarrow> string + unit"
  isAddress :: "string \<Rightarrow> string + bool"
  mint_and_wait :: "string \<Rightarrow> string \<Rightarrow> string + mined option"

text \<open>The receipt as the program reads it: a field the version does not have is undefined.\<close>

record receipt =
  events :: "transfer_event list option"
  transactionHash :: jsval
  blockNumber :: int

fun receipt_of :: "ethers_version \<Rightarrow> mined \<Rightarrow> receipt" where
  "receipt_of V5 m =
     \<lparr>events = Some (mined_events m), transactionHash = JStr (mined_hash m),
      blockNumber = mined_block m\<rparr>"
| "receipt_of V6 m =
     \<lparr>events = None, transactionHash = JUndefined, blockNumber = mined_block m\<rparr>"

text \<open>
  The contract object: \<open>nftContract.mint(...)\<close> followed by \<open>tx.wait()\<close>, which throws or
  gives null or a receipt.
\<close>

type_synonym contract = "string \<Rightarrow> string \<Rightarrow> string + receipt option"

definition contract_of :: "ethers_version \<Rightarrow> chain \<Rightarrow> contract" where
  "contract_of v c walletAddress tokenUri =
     (case mint_and_wait c walletAddress tokenUri of
        Inl err \<Rightarrow> Inl err
      | Inr None \<Rightarrow> Inr None
      | Inr (Some m) \<Rightarrow> Inr (Some (receipt_of v m)))"

text \<open>
  The provider the module constructs. The constructors it names exist in version 6 only.
\<close>

definition new_provider :: "ethers_version \<Rightarrow> blockchain_env \<Rightarrow> chain \<Rightarrow> string + unit" where
  "new_provider v env c =
     (case v of
        V5 \<Rightarrow> Inl ''not a constructor''
      | V6 \<Rightarrow>
         if NETWORK env = ''localhost'' then new_JsonRpcProvider c ''http://localhost:8545''
         else if INFURA_KEY env \<noteq> [] then new_InfuraProvider c (NETWORK env) (INFURA_KEY env)
         else new_JsonRpcProvider c
                (''https://'' @ NETWORK env @ ''.infura.io/v3/9aa3d95b3bc440fa88ea12eaa4456161''))"

text \<open>
  The initialisation of the module, which gives the variable \<open>nftContract\<close> its value:
  \<open>None\<close> is undefined. \<open>ethers\<close> is \<open>None\<close> when the package is not installed. Whatever the
  block throws is caught and logged, and leaves the variable undefined.
\<close>

definition initialise :: "ethers_version option \<Rightarrow> blockchain_env \<Rightarrow> chain \<Rightarrow> contract option" where
  "initialise ethers env c =
     (case ethers of
        None \<Rightarrow> None
      | Some v \<Rightarrow>
         (case new_provider v env c of
            Inl err \<Rightarrow> None
          | Inr provider \<Rightarrow>
             if PRIVATE_KEY env \<noteq> [] then
               (case new_Wallet c (PRIVATE_KEY env) of
                  Inl err \<Rightarrow> None
                | Inr wallet \<Rightarrow>
                   if NFT_CONTRACT_ADDRESS env \<noteq> [] then
                     (case new_Contract c (NFT_CONTRACT_ADDRESS env) of
                        Inl err \<Rightarrow> None
                      | Inr u \<Rightarrow> Some (contract_of v c))
                   else None)
             else None))"

text \<open>
  \<open>isValidAddress\<close>: without the package every address is valid; with it the answer is
  that of the package's \<open>isAddress\<close> (\<open>ethers.isAddress\<close> or \<open>ethers.utils.isAddress\<close>), and
  true when that throws.
\<close>

definition isValidAddress :: "ethers_version option \<Rightarrow> chain \<Rightarrow> string \<Rightarrow> bool" where
  "isValidAddress ethers c address =
     (case ethers of
        None \<Rightarrow> True
      | Some v \<Rightarrow> (case isAddress c address of Inl err \<Rightarrow> True | Inr b \<Rightarrow> b))"

record mint_result =
  mint_success :: bool
  simulated :: "bool option"
  mint_tokenId :: string
  mint_tokenUri :: string
  mint_txHash :: jsval
  mint_blockNumber :: int
  mint_walletAddress :: string
  mint_creditScore :: jsnum

text \<open>
  \<open>createCreditScoreMetadata\<close> builds the metadata, reading the clock for the
  verification date, and returns a made-up IPFS address from a second reading and one
  draw; of its result only the address matters to the caller. \<open>render\<close> is the
  conversion of a number to a string in a template literal.
\<close>

definition createCreditScoreMetadata ::
  "(jsnum \<Rightarrow> string) \<Rightarrow> rng \<Rightarrow> (nat \<Rightarrow> int) \<Rightarrow> string \<Rightarrow> jsnum \<Rightarrow> string" where
  "createCreditScoreMetadata render rnd clock walletAddress creditScore =
     ''ipfs://'' @ ''QmHash'' @ show_int (clock 1)
       @ render (jfloor (rmul binary64 (Fin (rnd 0)) (Fin 1000)))"

text \<open>
  The 64 digits of the simulated hash, one draw each. A product with 16 is exact in
  binary64.
\<close>

definition simulated_hash :: "rng \<Rightarrow> string" where
  "simulated_hash rnd = ''0x'' @ concat (map (\<lambda>k. show_hex \<lfloor>rnd k * 16\<rfloor>) [0..<64])"

text \<open>The result of the \<open>catch\<close> block; it reads the clock twice.\<close>

definition simulated_mint :: "rng \<Rightarrow> (nat \<Rightarrow> int) \<Rightarrow> string \<Rightarrow> jsnum \<Rightarrow> mint_result" where
  "simulated_mint rnd clock walletAddress creditScore =
     \<lparr>mint_success = True, simulated = Some True,
      mint_tokenId = show_int (clock 0),
      mint_tokenUri = ''ipfs://QmSimulated'' @ show_int (clock 1),
      mint_txHash = JStr (simulated_hash rnd),
      mint_blockNumber = 12345678,
      mint_walletAddress = walletAddress,
      mint_creditScore = creditScore\<rparr>"

text \<open>
  \<open>mintCreditScoreNFT\<close> of the blockchain service, with the module's variables \<open>ethers\<close>
  and \<open>nftContract\<close> as arguments. Reading \<open>events\<close> of a null receipt, \<open>find\<close> of an
  undefined \<open>events\<close> and \<open>args\<close> of a missing \<open>Transfer\<close> event throw a TypeError, which
  the \<open>catch\<close> block answers like every other error.
\<close>

definition blockchain_mintCreditScoreNFT ::
  "ethers_version option \<Rightarrow> chain \<Rightarrow> contract option \<Rightarrow> (jsnum \<Rightarrow> string) \<Rightarrow> rng \<Rightarrow> (nat \<Rightarrow> int)
   \<Rightarrow> string \<Rightarrow> jsnum \<Rightarrow> mint_result" where
  "blockchain_mintCreditScoreNFT ethers c nftContract render rnd clock walletAddress creditScore =
    (case nftContract of
       None \<Rightarrow> simulated_mint rnd clock walletAddress creditScore
     | Some nft \<Rightarrow>
         if \<not> isValidAddress ethers c walletAddress then
           simulated_mint rnd clock walletAddress creditScore
         else
           (let tokenUri = createCreditScoreMetadata render rnd clock walletAddress creditScore;
                failed = simulated_mint (rest rnd) (clock_after 2 clock) walletAddress creditScore
            in case nft walletAddress tokenUri of
                 Inl err \<Rightarrow> failed
               | Inr None \<Rightarrow> failed
               | Inr (Some rcpt) \<Rightarrow>
                  (case events rcpt of
                     None \<Rightarrow> failed
                   | Some evs \<Rightarrow>
                      (case find (\<lambda>event. event_name event = ''Transfer'') evs of
                         None \<Rightarrow> failed
                       | Some transferEvent \<Rightarrow>
                           \<lparr>mint_success = True, simulated = None,
                            mint_tokenId = args_tokenId transferEvent,
                            mint_tokenUri = tokenUri,
                            mint_txHash = transactionHash rcpt,
                            mint_blockNumber = blockNumber rcpt,
                            mint_walletAddress = walletAddress,
                            mint_creditScore = creditScore\<rparr>))))"

text \<open>
  The service as a request meets it: the module is initialised from the installed
  package, the environment and the chain, and \<open>mintCreditScoreNFT\<close> then runs with the
  variables the initialisation left.
\<close>

definition blockchain_service_mint ::
  "ethers_version option \<Rightarrow> blockchain_env \<Rightarrow> chain \<Rightarrow> (jsnum \<Rightarrow> string) \<Rightarrow> rng \<Rightarrow> (nat \<Rightarrow> int)
   \<Rightarrow> string \<Rightarrow> jsnum \<Rightarrow> mint_result" where
  "blockchain_service_mint ethers env c render rnd clock walletAddress creditScore =
     blockchain_mintCreditScoreNFT ethers c (initialise ethers env c) render rnd clock
       walletAddress creditScore"

section \<open>Concrete inputs\<close>

text \<open>The inputs at which the theorems below are instantiated.\<close>

definition no_env :: env where
  "no_env = \<lparr>NODE_ENV = None, JWT_SECRET = None\<rparr>"

definition production_env :: env where
  "production_env = \<lparr>NODE_ENV = Some ''production'', JWT_SECRET = Some ''s3cret''\<rparr>"

definition reject_every_token :: "string \<Rightarrow> string \<Rightarrow> string + user option" where
  "reject_every_token tok secret = Inl ''jwt malformed''"

definition accept_every_token :: "string \<Rightarrow> string \<Rightarrow> string + user option" where
  "accept_every_token tok secret = Inr (Some demo_user)"

definition request_without_token :: request where
  "request_without_token = \<lparr>x_auth_token = None, req_user = None\<rparr>"

definition request_with_token :: request where
  "request_with_token = \<lparr>x_auth_token = Some ''abc'', req_user = None\<rparr>"

definition mongo_error :: js_error where
  "mongo_error = \<lparr>err_name = ''MongoError'', err_message = ''connection lost'',
                   err_stack = ''MongoError: connection lost''\<rparr>"

definition plain_error :: js_error where
  "plain_error = \<lparr>err_name = ''Error'', err_message = ''boom'', err_stack = ''Error: boom''\<rparr>"

definition failing_service1 :: "string \<Rightarrow> jsnum \<Rightarrow> string + nat" where
  "failing_service1 uid v = Inl ''circuit not found''"

definition failing_service3 :: "string \<Rightarrow> jsnum \<Rightarrow> jsnum \<Rightarrow> jsnum \<Rightarrow> string + nat" where
  "failing_service3 uid v lo hi = Inl ''circuit not found''"

definition no_strings :: "string \<Rightarrow> jsnum" where
  "no_strings s = NaN"

definition range_statement :: "real \<Rightarrow> real \<Rightarrow> real \<Rightarrow> proof_request" where
  "range_statement v lo hi =
     \<lparr>pr_user = Some demo_user,
      pr_statement = Some \<lparr>st_type = JStr ''range'', st_value = JNum (Fin v),
                           st_min = JNum (Fin lo), st_max = JNum (Fin hi)\<rparr>\<rparr>"

definition anonymous_request :: proof_request where
  "anonymous_request = \<lparr>pr_user = None, pr_statement = None\<rparr>"

definition credit_statement :: statement where
  "credit_statement = \<lparr>stmt_type = JStr ''creditScore'', stmt_condition = JStr ''>'',
                        stmt_threshold = JNum (Fin 700)\<rparr>"

definition fixed_clock :: "int \<Rightarrow> nat \<Rightarrow> int" where
  "fixed_clock t n = t"

definition fixed_rng :: "real \<Rightarrow> rng" where
  "fixed_rng x n = x"

definition no_base :: "real \<Rightarrow> string" where
  "no_base x = ''0.8''"

definition no_render :: "jsnum \<Rightarrow> string" where
  "no_render x = ''700''"

definition configured_env :: blockchain_env where
  "configured_env =
     \<lparr>NETWORK = ''sepolia'', INFURA_KEY = ''0123456789abcdef'',
      PRIVATE_KEY = ''0x0123456789012345678901234567890123456789012345678901234567890123'',
      NFT_CONTRACT_ADDRESS = ''0x8915BEab6cCaA2F486d8B1C36c7ec151F9C72F5E''\<rparr>"

definition accepting_chain :: chain where
  "accepting_chain =
     \<lparr>new_JsonRpcProvider = (\<lambda>url. Inr ()),
      new_InfuraProvider = (\<lambda>network key. Inr ()),
      new_Wallet = (\<lambda>key. Inr ()),
      new_Contract = (\<lambda>address. Inr ()),
      isAddress = (\<lambda>address. Inr True),
      mint_and_wait = (\<lambda>recipient tokenUri.
        Inr (Some \<lparr>mined_hash = ''0xabc'', mined_block = 1,
                   mined_events = [\<lparr>event_name = ''Transfer'', args_tokenId = ''7''\<rparr>]\<rparr>))\<rparr>"

definition alice_proof :: zk_proof where
  "alice_proof =
     \<lparr>proof_id = ''proof_1700000000000_42'', proof_userId = ''alice'',
      proof_statement = credit_statement, publicSignals = [ToString (JNum (Fin 700)), Zero, Zero],
      createdAt = 1700000000000, expiresAt = 1702592000000\<rparr>"

definition alice_store :: proof_store where
  "alice_store = [''proof_1700000000000_42'' \<mapsto> alice_proof]"




definition two_prices :: "price_point list" where
  "two_prices = [\<lparr>timestamp = IsoString ''2025-04-01T00:00:00Z'', price = 100\<rparr>,
                 \<lparr>timestamp = IsoString ''2025-04-02T00:00:00Z'', price = 110\<rparr>]"

definition btc_holding :: "holding list" where
  "btc_holding = [\<lparr>token = ''btc'', amount = 2\<rparr>]"

section \<open>Theorems: binary64 rounding\<close>

text \<open>
  Rounding is evaluated by naming the exponent \<open>e\<close> and the significand \<open>n\<close> of the result:
  \<open>binary64 x\<close> is \<open>n * 2\<^sup>e\<^sup>-\<^sup>5\<^sup>2\<close> when \<open>x\<close> lies in the binade of \<open>e\<close> and within half a unit
  of \<open>n\<close>, a tie asking for an even \<open>n\<close>.
\<close>

lemma round_even_eqI:
  assumes "\<bar>y - of_int n\<bar> < 1 / 2 \<or> (\<bar>y - of_int n\<bar> = 1 / 2 \<and> even n)"
  shows "round_even y = n"
proof -
  from assms consider (near) "\<bar>y - of_int n\<bar> < 1 / 2"
    | (up) "y - of_int n = 1 / 2" "even n" | (down) "of_int n - y = 1 / 2" "even n"
    by (auto simp: abs_if split: if_splits)
  then show ?thesis
  proof cases
    case near
    then consider "\<lfloor>y\<rfloor> = n" | "\<lfloor>y\<rfloor> = n - 1" by (auto simp: abs_if split: if_splits) linarith+
    then show ?thesis
    proof cases
      case 1
      with near show ?thesis by (auto simp: round_even_def Let_def abs_if split: if_splits)
    next
      case 2
      with near show ?thesis by (auto simp: round_even_def Let_def abs_if split: if_splits)
    qed
  next
    case up
    then have "\<lfloor>y\<rfloor> = n" by linarith
    with up show ?thesis by (simp add: round_even_def Let_def)
  next
    case down
    then have "\<lfloor>y\<rfloor> = n - 1" by linarith
    with down show ?thesis by (simp add: round_even_def Let_def)
  qed
qed

lemma binade_eqI:
  assumes "2 powr of_int e \<le> \<bar>x\<bar>" and "\<bar>x\<bar> < 2 powr of_int (e + 1)" and "- 1022 \<le> e"
  shows "binade x = e"
proof -
  have "(0::real) < 2 powr of_int e" by simp
  then have pos: "0 < \<bar>x\<bar>" using assms(1) by linarith
  have "of_int e \<le> log 2 \<bar>x\<bar>" using assms(1) pos by (simp add: le_log_iff)
  moreover have "log 2 \<bar>x\<bar> < of_int e + 1"
    using assms(2) pos by (simp add: log_less_iff add.commute)
  ultimately have "\<lfloor>log 2 \<bar>x\<bar>\<rfloor> = e" by (simp add: floor_eq_iff)
  then show ?thesis using assms(3) by (simp add: binade_def)
qed

lemma nearest64_eqI:
  assumes "2 powr of_int e \<le> \<bar>x\<bar>" and "\<bar>x\<bar> < 2 powr of_int (e + 1)" and "- 1022 \<le> e"
    and "\<bar>x / 2 powr of_int (e - 52) - of_int n\<bar> < 1 / 2
         \<or> (\<bar>x / 2 powr of_int (e - 52) - of_int n\<bar> = 1 / 2 \<and> even n)"
    and "z = of_int n * 2 powr of_int (e - 52)"
  shows "nearest64 x = z"
proof -
  have b: "binade x = e" using assms(1-3) by (rule binade_eqI)
  have "(0::real) < 2 powr of_int e" by simp
  then have "0 < \<bar>x\<bar>" using assms(1) by linarith
  then have "x \<noteq> 0" by simp
  moreover have "round_even (x / ulp x) = n"
    unfolding ulp_def b using assms(4) by (rule round_even_eqI)
  ultimately show ?thesis using assms(5) by (simp add: nearest64_def ulp_def b)
qed

lemma binary64_eqI:
  assumes "2 powr of_int e \<le> \<bar>x\<bar>" and "\<bar>x\<bar> < 2 powr of_int (e + 1)" and "- 1022 \<le> e"
    and "\<bar>x / 2 powr of_int (e - 52) - of_int n\<bar> < 1 / 2
         \<or> (\<bar>x / 2 powr of_int (e - 52) - of_int n\<bar> = 1 / 2 \<and> even n)"
    and "z = of_int n * 2 powr of_int (e - 52)"
    and "\<bar>z\<bar> < 2 ^ 1024"
  shows "binary64 x = Fin z"
proof -
  have "nearest64 x = z" using assms(1-5) by (rule nearest64_eqI)
  then show ?thesis using assms(6) by (simp add: binary64_def abs_if split: if_splits)
qed

lemma binary64_zero: "binary64 0 = Fin 0"
  by (simp add: binary64_def nearest64_def)

lemma binary64_sqrt_eqI:
  assumes a: "0 < a"
    and lo: "(2 powr of_int e)\<^sup>2 \<le> a" and hi: "a < (2 powr of_int (e + 1))\<^sup>2" and e: "- 1022 \<le> e"
    and n: "1 \<le> n"
    and below: "((of_int n - 1 / 2) * 2 powr of_int (e - 52))\<^sup>2 < a"
    and above: "a < ((of_int n + 1 / 2) * 2 powr of_int (e - 52))\<^sup>2"
    and z: "z = of_int n * 2 powr of_int (e - 52)" and fin: "\<bar>z\<bar> < 2 ^ 1024"
  shows "binary64 (sqrt a) = Fin z"
proof (rule binary64_eqI [where e = e and n = n])
  have sa: "0 < sqrt a" using a by simp
  show "2 powr of_int e \<le> \<bar>sqrt a\<bar>"
    using lo sa by (simp add: real_le_rsqrt)
  show "\<bar>sqrt a\<bar> < 2 powr of_int (e + 1)"
  proof -
    have "sqrt a < 2 powr of_int (e + 1)" using hi by (intro real_less_lsqrt) simp_all
    then show ?thesis using sa by simp
  qed
  show "- 1022 \<le> e" by (rule e)
  let ?u = "(2::real) powr of_int (e - 52)"
  have u: "0 < ?u" by simp
  have nn: "0 \<le> (of_int n - 1 / 2) * ?u" using n u by (simp add: mult_nonneg_nonneg)
  have l: "(of_int n - 1 / 2) * ?u < sqrt a"
    using below nn by (simp add: real_less_rsqrt)
  have nn2: "0 \<le> (of_int n + 1 / 2) * ?u" using n u by (simp add: mult_nonneg_nonneg)
  have h: "sqrt a < (of_int n + 1 / 2) * ?u"
    using above nn2 by (simp add: real_less_lsqrt)
  from l h u have "of_int n - 1 / 2 < sqrt a / ?u" "sqrt a / ?u < of_int n + 1 / 2"
    by (simp_all add: pos_less_divide_eq pos_divide_less_eq)
  then have "\<bar>sqrt a / ?u - of_int n\<bar> < 1 / 2" by linarith
  then show "\<bar>sqrt a / ?u - of_int n\<bar> < 1 / 2
             \<or> (\<bar>sqrt a / ?u - of_int n\<bar> = 1 / 2 \<and> even n)"
    by (rule disjI1)
  show "z = of_int n * ?u" by (rule z)
  show "\<bar>z\<bar> < 2 ^ 1024" by (rule fin)
qed


lemma round_even_ge: "of_int m \<le> y \<Longrightarrow> m \<le> round_even y"
proof -
  assume "of_int m \<le> y"
  then have "m \<le> \<lfloor>y\<rfloor>" by (simp add: le_floor_iff)
  then show ?thesis by (auto simp: round_even_def Let_def)
qed

lemma round_even_le: "y \<le> of_int m \<Longrightarrow> round_even y \<le> m"
proof -
  assume le: "y \<le> of_int m"
  show ?thesis
  proof (cases "y = of_int m")
    case True
    then show ?thesis by (simp add: round_even_def Let_def)
  next
    case False
    with le have "y < of_int m" by simp
    then have "\<lfloor>y\<rfloor> < m" by (simp add: floor_less_iff)
    then show ?thesis by (auto simp: round_even_def Let_def)
  qed
qed

lemma binade_bounds:
  assumes "1 \<le> x"
  shows "0 \<le> binade x" and "2 powr of_int (binade x) \<le> x" and "x < 2 powr of_int (binade x + 1)"
proof -
  have pos: "0 < x" using assms by simp
  have "0 \<le> log 2 x" using assms by simp
  then have f0: "0 \<le> \<lfloor>log 2 x\<rfloor>" by simp
  then have "- 1022 \<le> \<lfloor>log 2 x\<rfloor>" by linarith
  then have b: "binade x = \<lfloor>log 2 x\<rfloor>"
    unfolding binade_def using pos by (simp only: abs_of_pos max_absorb1)
  show "0 \<le> binade x" using f0 b by simp
  have "of_int \<lfloor>log 2 x\<rfloor> \<le> log 2 x" by simp
  then have "(2::real) powr of_int \<lfloor>log 2 x\<rfloor> \<le> 2 powr log 2 x"
    by (simp only: powr_le_cancel_iff one_less_numeral_iff semiring_norm)
  also have "\<dots> = x" using pos by simp
  finally show "2 powr of_int (binade x) \<le> x" unfolding b .
  have "log 2 x < of_int (\<lfloor>log 2 x\<rfloor> + 1)" by linarith
  then have "(2::real) powr log 2 x < 2 powr of_int (\<lfloor>log 2 x\<rfloor> + 1)"
    by (simp only: powr_less_cancel_iff one_less_numeral_iff semiring_norm)
  moreover have "2 powr log 2 x = x" using pos by simp
  ultimately show "x < 2 powr of_int (binade x + 1)" unfolding b by simp
qed

lemma ulp_small:
  assumes "binade x \<le> 52"
  shows "ulp x = 1 / 2 ^ nat (52 - binade x)"
proof -
  have "real_of_int (binade x - 52) = - real (nat (52 - binade x))" using assms by simp
  then have "ulp x = 2 powr (- real (nat (52 - binade x)))" by (simp only: ulp_def)
  also have "\<dots> = 1 / 2 ^ nat (52 - binade x)"
    by (simp add: powr_minus powr_realpow divide_inverse)
  finally show ?thesis .
qed

lemma nearest64_nonneg: "0 \<le> x \<Longrightarrow> 0 \<le> nearest64 x"
proof -
  assume "0 \<le> x"
  then have "0 \<le> x / ulp x" by (simp add: ulp_def)
  then have "0 \<le> round_even (x / ulp x)" using round_even_ge [of 0] by simp
  then show ?thesis by (simp add: nearest64_def ulp_def)
qed

lemma nearest64_nonpos: "x \<le> 0 \<Longrightarrow> nearest64 x \<le> 0"
proof -
  assume "x \<le> 0"
  then have "x / ulp x \<le> 0" by (simp add: ulp_def divide_nonpos_pos)
  then have "round_even (x / ulp x) \<le> 0" using round_even_le [of _ 0] by simp
  then show ?thesis by (simp add: nearest64_def ulp_def mult_nonpos_nonneg)
qed

text \<open>Rounding never crosses an integer of at most 53 bits.\<close>

lemma nearest64_ge_int:
  assumes kx: "of_int k \<le> x" and k0: "0 \<le> k" and k53: "k \<le> 2 ^ 53"
  shows "of_int k \<le> nearest64 x"
proof (cases "k = 0")
  case True
  then show ?thesis using kx nearest64_nonneg [of x] by simp
next
  case False
  then have k1: "1 \<le> k" using k0 by simp
  then have "(1::real) \<le> of_int k" by simp
  then have x1: "1 \<le> x" using kx by linarith
  note b = binade_bounds [OF x1]
  let ?e = "binade x"
  have xn: "x \<noteq> 0" using x1 by simp
  show ?thesis
  proof (cases "?e \<le> 52")
    case True
    have u: "ulp x = 1 / 2 ^ nat (52 - ?e)"
      using True by (rule ulp_small)
    have "of_int (k * 2 ^ nat (52 - ?e)) \<le> x / ulp x"
      using kx by (simp add: u mult_right_mono)
    then have "k * 2 ^ nat (52 - ?e) \<le> round_even (x / ulp x)" by (rule round_even_ge)
    then have "of_int (k * 2 ^ nat (52 - ?e)) \<le> (of_int (round_even (x / ulp x)) :: real)"
      by (simp only: of_int_le_iff)
    then have "of_int k \<le> of_int (round_even (x / ulp x)) * ulp x"
      by (simp add: u pos_le_divide_eq)
    then show ?thesis using xn by (simp add: nearest64_def)
  next
    case False
    then have big: "53 \<le> ?e" by simp
    have upos: "0 < ulp x" by (simp add: ulp_def)
    have "2 powr of_int ?e / ulp x = 2 powr 52"
      by (simp add: ulp_def powr_diff [symmetric])
    also have "\<dots> = of_int (2 ^ 52)" by simp
    finally have "of_int (2 ^ 52) \<le> x / ulp x"
      using b(2) upos by (metis divide_right_mono less_eq_real_def)
    then have "2 ^ 52 \<le> round_even (x / ulp x)" by (rule round_even_ge)
    then have "of_int (2 ^ 52) \<le> (of_int (round_even (x / ulp x)) :: real)"
      by (simp only: of_int_le_iff)
    then have "of_int (2 ^ 52) * ulp x \<le> of_int (round_even (x / ulp x)) * ulp x"
      using upos by (simp add: mult_right_mono)
    moreover have "of_int (2 ^ 52) * ulp x = 2 powr of_int ?e"
      by (simp add: ulp_def powr_diff)
    moreover have "(2::real) ^ 53 \<le> 2 powr of_int ?e"
    proof -
      have "real_of_int 53 \<le> of_int ?e" using big by (simp only: of_int_le_iff)
      then have "(2::real) powr of_int 53 \<le> 2 powr of_int ?e"
        by (simp only: powr_le_cancel_iff one_less_numeral_iff semiring_norm)
      then show ?thesis by simp
    qed
    moreover have "of_int k \<le> (2::real) ^ 53"
    proof -
      have "real_of_int k \<le> of_int (2 ^ 53)" using k53 by (simp only: of_int_le_iff)
      then show ?thesis by simp
    qed
    ultimately have "of_int k \<le> of_int (round_even (x / ulp x)) * ulp x" by linarith
    then show ?thesis using xn by (simp add: nearest64_def)
  qed
qed

lemma nearest64_le_int:
  assumes xk: "x \<le> of_int k" and k0: "0 \<le> k" and k53: "k \<le> 2 ^ 53"
  shows "nearest64 x \<le> of_int k"
proof (cases "x < 1")
  case True
  show ?thesis
  proof (cases "x \<le> 0")
    case True
    moreover have "(0::real) \<le> of_int k" using k0 by simp
    ultimately show ?thesis using nearest64_nonpos [of x] by linarith
  next
    case False
    then have xpos: "0 < x" by simp
    then have "(0::real) < of_int k" using xk by linarith
    then have k1: "1 \<le> k" by simp
    have "log 2 x < 0" using True xpos by simp
    then have "\<lfloor>log 2 x\<rfloor> < 0" by (simp add: floor_less_iff)
    then have e: "binade x \<le> 0" using xpos by (simp add: binade_def)
    then have u: "ulp x = 1 / 2 ^ nat (52 - binade x)"
      by (intro ulp_small) simp
    have "x / ulp x \<le> of_int (1 * 2 ^ nat (52 - binade x))"
      using True by (simp add: u)
    then have "round_even (x / ulp x) \<le> 1 * 2 ^ nat (52 - binade x)" by (rule round_even_le)
    then have "(of_int (round_even (x / ulp x)) :: real) \<le> of_int (1 * 2 ^ nat (52 - binade x))"
      by (simp only: of_int_le_iff)
    then have "of_int (round_even (x / ulp x)) * ulp x \<le> 1"
      by (simp add: u field_simps)
    moreover have "(1::real) \<le> of_int k" using k1 by simp
    ultimately show ?thesis using xpos by (simp add: nearest64_def)
  qed
next
  case False
  then have x1: "1 \<le> x" by simp
  note b = binade_bounds [OF x1]
  let ?e = "binade x"
  have xn: "x \<noteq> 0" using x1 by simp
  have "real_of_int k \<le> of_int (2 ^ 53)" using k53 by (simp only: of_int_le_iff)
  then have kr: "of_int k \<le> (2::real) ^ 53" by simp
  have "(2::real) powr of_int 53 = 2 ^ 53" by simp
  then have "2 powr of_int ?e \<le> (2::real) powr of_int 53"
    using b(2) xk kr by linarith
  then have "real_of_int ?e \<le> of_int 53"
    by (simp only: powr_le_cancel_iff one_less_numeral_iff semiring_norm)
  then have e53: "?e \<le> 53" by (simp only: of_int_le_iff)
  show ?thesis
  proof (cases "?e \<le> 52")
    case True
    have u: "ulp x = 1 / 2 ^ nat (52 - ?e)"
      using True by (rule ulp_small)
    have "x / ulp x \<le> of_int (k * 2 ^ nat (52 - ?e))"
      using xk by (simp add: u mult_right_mono)
    then have "round_even (x / ulp x) \<le> k * 2 ^ nat (52 - ?e)" by (rule round_even_le)
    then have "(of_int (round_even (x / ulp x)) :: real) \<le> of_int (k * 2 ^ nat (52 - ?e))"
      by (simp only: of_int_le_iff)
    then have "of_int (round_even (x / ulp x)) * ulp x \<le> of_int k"
      by (simp add: u pos_divide_le_eq)
    then show ?thesis using xn by (simp add: nearest64_def)
  next
    case False
    with e53 have e: "?e = 53" by simp
    have "(2::real) ^ 53 \<le> x" using b(2) e by simp
    with xk kr have x: "x = 2 ^ 53" and k: "of_int k = (2::real) ^ 53" by simp_all
    have u: "ulp x = 2" using e by (simp add: ulp_def)
    have q: "x / ulp x = of_int (2 ^ 52)" unfolding u by (simp add: x)
    have "round_even (x / ulp x) = 2 ^ 52"
      unfolding q by (rule round_even_eqI) simp
    then have "nearest64 x = 2 ^ 53" using xn by (simp add: nearest64_def u)
    then show ?thesis using k by simp
  qed
qed

lemma binary64_between_int:
  assumes "of_int a \<le> x" and "x \<le> of_int b" and "0 \<le> a" and "b \<le> 2 ^ 53"
  shows "\<exists>y. binary64 x = Fin y \<and> of_int a \<le> y \<and> y \<le> of_int b"
proof -
  have "real_of_int a \<le> of_int b" using assms(1,2) by linarith
  then have ab: "a \<le> b" by simp
  have lo: "of_int a \<le> nearest64 x"
    using assms(1,3) ab assms(4) by (intro nearest64_ge_int) simp_all
  have hi: "nearest64 x \<le> of_int b"
    using assms(2,3) ab assms(4) by (intro nearest64_le_int) simp_all
  have "real_of_int b \<le> of_int (2 ^ 53)" using assms(4) by (simp only: of_int_le_iff)
  then have "of_int b \<le> (2::real) ^ 53" by simp
  also have "\<dots> < 2 ^ 1024" by simp
  finally have "nearest64 x < 2 ^ 1024" using hi by simp
  moreover have "- (2 ^ 1024) < nearest64 x"
  proof -
    have "(0::real) \<le> of_int a" using assms(3) by simp
    moreover have "- (2 ^ 1024) < (0::real)" by simp
    ultimately show ?thesis using lo by linarith
  qed
  ultimately show ?thesis using lo hi by (simp add: binary64_def)
qed

section \<open>Theorems: authentication and error handling\<close>

text \<open>
  C1, as stated, fails: a request without the \<open>x-auth-token\<close> header that goes through
  \<open>middleware/auth.middleware.js\<close> (the contract and user routes) is answered with 401.
\<close>

theorem auth_middleware_rejects_missing_token:
  "snd (auth_middleware no_env accept_every_token request_without_token) =
     Respond \<lparr>status = 401, message = ''No token, authorization denied'',
              error_field = None, warning_field = None\<rparr>"
  by (simp add: auth_middleware_def request_without_token_def)

text \<open>
  C1, amended. Every request through \<open>middleware/auth.js\<close>, and every request through
  the server's global bypass, is forwarded with the demo user attached and is never
  rejected. \<open>middleware/auth.middleware.js\<close> answers 401 when the token header is missing
  or empty, and in production when \<open>jwt.verify\<close> rejects the token; otherwise it forwards
  the request, with the mock user outside production and with the decoded user in
  production.
\<close>

theorem auth_bypass_and_token_guard:
  "snd (auth req) = Next (req\<lparr>req_user := Some demo_user\<rparr>)
   \<and> snd (snd (global_auth_bypass logged req)) = Next (req\<lparr>req_user := Some demo_user\<rparr>)
   \<and> (x_auth_token req = None \<or> x_auth_token req = Some [] \<longrightarrow>
        snd (auth_middleware e jwt_verify req) =
          Respond \<lparr>status = 401, message = ''No token, authorization denied'',
                   error_field = None, warning_field = None\<rparr>)
   \<and> (\<forall>tok. x_auth_token req = Some tok \<and> tok \<noteq> [] \<and> NODE_ENV e \<noteq> Some ''production'' \<longrightarrow>
        snd (auth_middleware e jwt_verify req) = Next (req\<lparr>req_user := Some mock_user\<rparr>))
   \<and> (\<forall>tok m. x_auth_token req = Some tok \<and> tok \<noteq> [] \<and> NODE_ENV e = Some ''production'' \<and>
         jwt_verify tok (jwt_secret e) = Inl m \<longrightarrow>
        snd (auth_middleware e jwt_verify req) =
          Respond \<lparr>status = 401, message = ''Token is not valid'',
                   error_field = None, warning_field = None\<rparr>)
   \<and> (\<forall>tok u. x_auth_token req = Some tok \<and> tok \<noteq> [] \<and> NODE_ENV e = Some ''production'' \<and>
         jwt_verify tok (jwt_secret e) = Inr u \<longrightarrow>
        snd (auth_middleware e jwt_verify req) = Next (req\<lparr>req_user := u\<rparr>))"
  by (auto simp: auth_def global_auth_bypass_def auth_middleware_def)

theorem auth_bypass_and_token_guard_witness:
  "snd (auth request_without_token) = Next (request_without_token\<lparr>req_user := Some demo_user\<rparr>)
   \<and> snd (auth_middleware no_env reject_every_token request_with_token) =
       Next (request_with_token\<lparr>req_user := Some mock_user\<rparr>)
   \<and> snd (auth_middleware production_env reject_every_token request_with_token) =
       Respond \<lparr>status = 401, message = ''Token is not valid'',
                error_field = None, warning_field = None\<rparr>
   \<and> snd (auth_middleware production_env accept_every_token request_with_token) =
       Next (request_with_token\<lparr>req_user := Some demo_user\<rparr>)
   \<and> snd (auth_middleware production_env accept_every_token request_without_token) =
       Respond \<lparr>status = 401, message = ''No token, authorization denied'',
                error_field = None, warning_field = None\<rparr>"
  using auth_bypass_and_token_guard [of request_without_token False no_env reject_every_token]
    auth_bypass_and_token_guard [of request_with_token False no_env reject_every_token]
    auth_bypass_and_token_guard [of request_with_token False production_env reject_every_token]
    auth_bypass_and_token_guard [of request_with_token False production_env accept_every_token]
    auth_bypass_and_token_guard [of request_without_token False production_env accept_every_token]
  by (simp add: request_with_token_def request_without_token_def no_env_def production_env_def
      reject_every_token_def accept_every_token_def)

text \<open>
  C2, as stated, fails: in production, \<open>middleware/auth.middleware.js\<close> catches the error
  that \<open>jwt.verify\<close> throws for a bad token, logs it, and answers 401, not 500.
\<close>

theorem rejected_token_answered_401:
  "auth_middleware production_env reject_every_token request_with_token =
     ([ErrAuthMiddleware ''jwt malformed''],
      Respond \<lparr>status = 401, message = ''Token is not valid'',
               error_field = None, warning_field = None\<rparr>)"
  by (simp add: auth_middleware_def production_env_def reject_every_token_def
      request_with_token_def)

text \<open>
  C2, amended. In \<open>generateProof\<close> a thrown error (an undefined \<open>req.user\<close>, a proof service
  that throws on a statement that passed validation) is logged and answered with 500 and
  the message \<open>Server error\<close>; every statement that fails validation is answered with 400
  and its message, and nothing is logged. An error that reaches the server's error
  handler is logged with its stack and answered with 500 and \<open>Something went wrong!\<close>,
  or with 200 when it is named \<open>MongoError\<close> or \<open>MongoNetworkError\<close>. The token check of
  \<open>middleware/auth.middleware.js\<close> answers 401: for a token that \<open>jwt.verify\<close> rejects
  in production (logged), and for a missing or empty token.
\<close>

theorem error_paths_statuses:
  "(pr_user req = None \<longrightarrow>
      generateProof eqP rgP sn req =
        ([ErrGeneratingProof type_error_user_id],
         Failed \<lparr>status = 500, message = ''Server error'',
                 error_field = Some type_error_user_id, warning_field = None\<rparr>))
   \<and> (\<forall>u st m. pr_user req = Some u \<and> pr_statement req = Some st \<and>
         st_type st = JStr ''equality'' \<and> truthy (st_value st) \<and> \<not> isNaN sn (st_value st) \<and>
         eqP (user_id u) (to_number sn (st_value st)) = Inl m \<longrightarrow>
      generateProof eqP rgP sn req =
        ([ErrGeneratingProof m],
         Failed \<lparr>status = 500, message = ''Server error'', error_field = Some m,
                 warning_field = None\<rparr>))
   \<and> (\<forall>u st m. pr_user req = Some u \<and> pr_statement req = Some st \<and>
         st_type st = JStr ''range'' \<and>
         truthy (st_min st) \<and> \<not> isNaN sn (st_min st) \<and>
         truthy (st_max st) \<and> \<not> isNaN sn (st_max st) \<and>
         \<not> js_ge sn (st_min st) (st_max st) \<and>
         truthy (st_value st) \<and> \<not> isNaN sn (st_value st) \<and>
         rgP (user_id u) (to_number sn (st_value st)) (to_number sn (st_min st))
             (to_number sn (st_max st)) = Inl m \<longrightarrow>
      generateProof eqP rgP sn req =
        ([ErrGeneratingProof m],
         Failed \<lparr>status = 500, message = ''Server error'', error_field = Some m,
                 warning_field = None\<rparr>))
   \<and> (\<forall>u. pr_user req = Some u \<and> pr_statement req = None \<longrightarrow>
      generateProof eqP rgP sn req =
        ([], Failed \<lparr>status = 400, message = ''Valid statement object is required'',
                     error_field = None, warning_field = None\<rparr>))
   \<and> (\<forall>u st. pr_user req = Some u \<and> pr_statement req = Some st \<and>
         st_type st = JStr ''equality'' \<and> (\<not> truthy (st_value st) \<or> isNaN sn (st_value st)) \<longrightarrow>
      generateProof eqP rgP sn req =
        ([], Failed \<lparr>status = 400,
                     message = ''Valid numeric value is required for equality proof'',
                     error_field = None, warning_field = None\<rparr>))
   \<and> (\<forall>u st. pr_user req = Some u \<and> pr_statement req = Some st \<and>
         st_type st = JStr ''range'' \<and>
         (\<not> truthy (st_min st) \<or> isNaN sn (st_min st) \<or>
          \<not> truthy (st_max st) \<or> isNaN sn (st_max st)) \<longrightarrow>
      generateProof eqP rgP sn req =
        ([], Failed \<lparr>status = 400,
                     message = ''Valid min and max values are required for range proof'',
                     error_field = None, warning_field = None\<rparr>))
   \<and> (\<forall>u st. pr_user req = Some u \<and> pr_statement req = Some st \<and>
         st_type st = JStr ''range'' \<and>
         truthy (st_min st) \<and> \<not> isNaN sn (st_min st) \<and>
         truthy (st_max st) \<and> \<not> isNaN sn (st_max st) \<and>
         js_ge sn (st_min st) (st_max st) \<longrightarrow>
      generateProof eqP rgP sn req =
        ([], Failed \<lparr>status = 400, message = ''Min value must be less than max value'',
                     error_field = None, warning_field = None\<rparr>))
   \<and> (\<forall>u st. pr_user req = Some u \<and> pr_statement req = Some st \<and>
         st_type st = JStr ''range'' \<and>
         truthy (st_min st) \<and> \<not> isNaN sn (st_min st) \<and>
         truthy (st_max st) \<and> \<not> isNaN sn (st_max st) \<and>
         \<not> js_ge sn (st_min st) (st_max st) \<and>
         (\<not> truthy (st_value st) \<or> isNaN sn (st_value st)) \<longrightarrow>
      generateProof eqP rgP sn req =
        ([], Failed \<lparr>status = 400,
                     message = ''Valid numeric value is required for range proof'',
                     error_field = None, warning_field = None\<rparr>))
   \<and> (\<forall>u st. pr_user req = Some u \<and> pr_statement req = Some st \<and>
         st_type st \<noteq> JStr ''equality'' \<and> st_type st \<noteq> JStr ''range'' \<longrightarrow>
      generateProof eqP rgP sn req =
        ([], Failed \<lparr>status = 400,
                     message = ''Invalid proof type. Supported types: equality, range'',
                     error_field = None, warning_field = None\<rparr>))
   \<and> (err_name err \<noteq> ''MongoError'' \<and> err_name err \<noteq> ''MongoNetworkError'' \<longrightarrow>
      error_handler e err =
        ([ErrStack (err_stack err)],
         \<lparr>status = 500, message = ''Something went wrong!'',
          error_field = Some (if NODE_ENV e = Some ''development'' then err_message err
                              else ''Internal server error''),
          warning_field = None\<rparr>))
   \<and> (err_name err = ''MongoError'' \<or> err_name err = ''MongoNetworkError'' \<longrightarrow>
      error_handler e err =
        ([ErrStack (err_stack err), LogMongoMemoryOnly],
         \<lparr>status = 200, message = ''Operation succeeded (memory-only mode)'',
          error_field = None,
          warning_field = Some ''Database unavailable, changes will not persist''\<rparr>))
   \<and> (\<forall>tok m. x_auth_token r = Some tok \<and> tok \<noteq> [] \<and> NODE_ENV e = Some ''production'' \<and>
         jwt_verify tok (jwt_secret e) = Inl m \<longrightarrow>
      auth_middleware e jwt_verify r =
        ([ErrAuthMiddleware m],
         Respond \<lparr>status = 401, message = ''Token is not valid'',
                  error_field = None, warning_field = None\<rparr>))
   \<and> (x_auth_token r = None \<or> x_auth_token r = Some [] \<longrightarrow>
      auth_middleware e jwt_verify r =
        ([], Respond \<lparr>status = 401, message = ''No token, authorization denied'',
                      error_field = None, warning_field = None\<rparr>))"
  by (auto simp: generateProof_def server_error_def bad_request_def error_handler_def
      auth_middleware_def)

theorem error_paths_statuses_witness:
  "generateProof failing_service1 failing_service3 no_strings (range_statement 750 700 850) =
     ([ErrGeneratingProof ''circuit not found''],
      Failed \<lparr>status = 500, message = ''Server error'', error_field = Some ''circuit not found'',
              warning_field = None\<rparr>)
   \<and> generateProof failing_service1 failing_service3 no_strings (range_statement 750 850 700) =
     ([], Failed \<lparr>status = 400, message = ''Min value must be less than max value'',
                  error_field = None, warning_field = None\<rparr>)
   \<and> generateProof failing_service1 failing_service3 no_strings anonymous_request =
     ([ErrGeneratingProof type_error_user_id],
      Failed \<lparr>status = 500, message = ''Server error'',
              error_field = Some type_error_user_id, warning_field = None\<rparr>)
   \<and> error_handler no_env plain_error =
     ([ErrStack ''Error: boom''],
      \<lparr>status = 500, message = ''Something went wrong!'',
       error_field = Some ''Internal server error'', warning_field = None\<rparr>)
   \<and> auth_middleware production_env reject_every_token request_with_token =
     ([ErrAuthMiddleware ''jwt malformed''],
      Respond \<lparr>status = 401, message = ''Token is not valid'',
               error_field = None, warning_field = None\<rparr>)"
  using error_paths_statuses [of "range_statement 750 700 850" failing_service1 failing_service3
      no_strings plain_error no_env request_with_token reject_every_token]
    error_paths_statuses [of "range_statement 750 850 700" failing_service1 failing_service3
      no_strings plain_error production_env request_with_token reject_every_token]
    error_paths_statuses [of anonymous_request failing_service1 failing_service3
      no_strings plain_error no_env request_with_token reject_every_token]
  by (simp add: range_statement_def anonymous_request_def failing_service3_def isNaN_def
      jge_def plain_error_def no_env_def production_env_def request_with_token_def
      reject_every_token_def jwt_secret_def demo_user_def)

section \<open>Theorems: generateProof and the value 0\<close>

text \<open>
  C3. A range statement whose value is the number 0, with \<open>min = -5 < max = 5\<close>, is not
  forwarded to the proof service: \<open>!statement.value\<close> holds for 0, and the controller
  answers 400, whatever the proof service and the string conversion are.
\<close>

theorem generateProof_rejects_zero_value:
  "snd (generateProof eqP rgP sn (range_statement 0 (- 5) 5)) =
     bad_request ''Valid numeric value is required for range proof''"
  by (simp add: generateProof_def range_statement_def isNaN_def jge_def)

theorem generateProof_rejects_zero_value_witness:
  "snd (generateProof failing_service1 failing_service3 no_strings (range_statement 0 (- 5) 5)) =
     bad_request ''Valid numeric value is required for range proof''"
  using generateProof_rejects_zero_value [of failing_service1 failing_service3 no_strings]
  by simp

text \<open>The same slip rejects a bound that is 0.\<close>

lemma generateProof_rejects_zero_min:
  "snd (generateProof eqP rgP sn (range_statement 10 0 850)) =
     bad_request ''Valid min and max values are required for range proof''"
  by (simp add: generateProof_def range_statement_def isNaN_def jge_def)

text \<open>
  With three numbers other than 0 and \<open>min < max\<close> the statement reaches the proof
  service, and the reply is the service's proof or the 500 of its failure.
\<close>

lemma generateProof_forwards_nonzero_range:
  assumes "v \<noteq> 0" and "lo \<noteq> 0" and "hi \<noteq> 0" and "lo < hi"
  shows "generateProof eqP rgP sn (range_statement v lo hi) =
           (case rgP ''demo_user_123'' (Fin v) (Fin lo) (Fin hi) of
              Inl m \<Rightarrow> server_error m
            | Inr prf \<Rightarrow> ([], Json prf))"
  using assms
  by (simp add: generateProof_def range_statement_def isNaN_def jge_def demo_user_def)

section \<open>Theorems: the proof store\<close>

text \<open>
  C6. \<open>generateZKProof\<close> reports success and stores the proof it fabricates under the
  id it returns, with the caller's user id and statement; a \<open>verifyZKProof\<close> of that id
  on the resulting store, at a time that is not past the proof's \<open>expiresAt\<close>, returns
  \<open>success: true\<close> and \<open>verified: true\<close> with the statement.
\<close>

theorem generate_then_verify:
  assumes "later 0 \<le> gen_expiresAt (snd (generateZKProof mockProofs clock r userId st))"
  shows "(let out = generateZKProof mockProofs clock r userId st;
              proofId = gen_proofId (snd out);
              v = verifyZKProof (fst out) later proofId
          in gen_success (snd out)
             \<and> (\<exists>prf. fst out proofId = Some prf \<and> proof_id prf = proofId \<and>
                  proof_userId prf = userId \<and> proof_statement prf = st \<and>
                  expiresAt prf = gen_expiresAt (snd out))
             \<and> success v \<and> verified v = Some True \<and> ver_statement v = Some st
             \<and> ver_error v = None)"
  using assms
  by (simp add: generateZKProof_def verifyZKProof_def js_get_def verify_ok_def Let_def)

theorem generate_then_verify_witness:
  "fixed_clock 5 0 \<le> gen_expiresAt (snd (generateZKProof Map.empty (fixed_clock 0) (1 / 2) ''alice'' credit_statement))
   \<and> success (verifyZKProof (fst (generateZKProof Map.empty (fixed_clock 0) (1 / 2) ''alice'' credit_statement))
        (fixed_clock 5)
        (gen_proofId (snd (generateZKProof Map.empty (fixed_clock 0) (1 / 2) ''alice'' credit_statement))))"
  using generate_then_verify [of "fixed_clock 5" Map.empty "fixed_clock 0" "1 / 2" "''alice''" credit_statement]
  by (simp add: generateZKProof_def Let_def fixed_clock_def thirty_days_def)

text \<open>The id \<open>generateZKProof\<close> makes is never the name of an inherited property.\<close>

lemma generated_id_is_own_name:
  "gen_proofId (snd (generateZKProof mockProofs clock r userId st)) \<notin> set object_prototype_keys"
  by (simp add: generateZKProof_def Let_def object_prototype_keys_def)

text \<open>A revocation never adds a proof.\<close>

lemma revoke_keeps_absent:
  "mockProofs proofId = None \<Longrightarrow> fst (revokeZKProof mockProofs userId q) proofId = None"
  by (simp add: revokeZKProof_def split: slot.splits)

lemma revoke_all_keeps_absent:
  "mockProofs proofId = None \<Longrightarrow> revoke_all mockProofs later proofId = None"
proof (induction later arbitrary: mockProofs)
  case Nil
  then show ?case by simp
next
  case (Cons op later)
  obtain u q where op: "op = (u, q)" by (cases op)
  from Cons.prems have "fst (revokeZKProof mockProofs u q) proofId = None"
    by (rule revoke_keeps_absent)
  then show ?case using Cons.IH op by simp
qed

text \<open>
  C9. For a stored proof: a revocation by a user who is not its owner fails and leaves
  the store as it was, so that verification answers as before (with success while the
  proof has not expired); a revocation by the owner succeeds and removes the proof, and
  after it, and after any further revocations, verification of that id answers
  \<open>Proof not found\<close>. (A stored id is never the name of an inherited property.)
\<close>

theorem revocation_owner_only:
  assumes "mockProofs proofId = Some prf"
  shows "(proof_userId prf \<noteq> userId \<longrightarrow>
            rev_success (snd (revokeZKProof mockProofs userId proofId)) = False \<and>
            fst (revokeZKProof mockProofs userId proofId) = mockProofs \<and>
            verifyZKProof (fst (revokeZKProof mockProofs userId proofId)) clock proofId =
              verifyZKProof mockProofs clock proofId \<and>
            (clock 0 \<le> expiresAt prf \<longrightarrow>
               success (verifyZKProof (fst (revokeZKProof mockProofs userId proofId)) clock proofId)))
       \<and> (proof_userId prf = userId \<and> proofId \<notin> set object_prototype_keys \<longrightarrow>
            rev_success (snd (revokeZKProof mockProofs userId proofId)) \<and>
            fst (revokeZKProof mockProofs userId proofId) proofId = None \<and>
            verifyZKProof (revoke_all (fst (revokeZKProof mockProofs userId proofId)) later) clock proofId
              = verify_failed ''Proof not found'' None)"
proof (intro conjI impI)
  assume "proof_userId prf = userId \<and> proofId \<notin> set object_prototype_keys"
  then have own: "proof_userId prf = userId" and np: "proofId \<notin> set object_prototype_keys" by auto
  have gone: "fst (revokeZKProof mockProofs userId proofId) proofId = None"
    using assms own by (simp add: revokeZKProof_def js_get_def)
  show "fst (revokeZKProof mockProofs userId proofId) proofId = None" by (rule gone)
  show "rev_success (snd (revokeZKProof mockProofs userId proofId))"
    using assms own by (simp add: revokeZKProof_def js_get_def)
  have "revoke_all (fst (revokeZKProof mockProofs userId proofId)) later proofId = None"
    using gone by (rule revoke_all_keeps_absent)
  then show "verifyZKProof (revoke_all (fst (revokeZKProof mockProofs userId proofId)) later) clock proofId
              = verify_failed ''Proof not found'' None"
    using np by (simp add: verifyZKProof_def js_get_def)
qed (use assms in \<open>simp_all add: revokeZKProof_def js_get_def verifyZKProof_def verify_ok_def\<close>)

theorem revocation_owner_only_witness:
  "rev_success (snd (revokeZKProof alice_store ''bob'' ''proof_1700000000000_42'')) = False
   \<and> fst (revokeZKProof alice_store ''bob'' ''proof_1700000000000_42'') = alice_store
   \<and> success (verifyZKProof (fst (revokeZKProof alice_store ''bob'' ''proof_1700000000000_42''))
        (fixed_clock 1700000005000) ''proof_1700000000000_42'')
   \<and> rev_success (snd (revokeZKProof alice_store ''alice'' ''proof_1700000000000_42''))
   \<and> verifyZKProof (revoke_all (fst (revokeZKProof alice_store ''alice'' ''proof_1700000000000_42''))
         [(''bob'', ''proof_1700000000000_42'')]) (fixed_clock 1700000005000) ''proof_1700000000000_42''
       = verify_failed ''Proof not found'' None"
  using revocation_owner_only [of alice_store "''proof_1700000000000_42''" alice_proof "''bob''"
      "fixed_clock 1700000005000" "[(''bob'', ''proof_1700000000000_42'')]"]
    revocation_owner_only [of alice_store "''proof_1700000000000_42''" alice_proof "''alice''"
      "fixed_clock 1700000005000" "[(''bob'', ''proof_1700000000000_42'')]"]
  by (simp add: alice_store_def alice_proof_def fixed_clock_def object_prototype_keys_def
      revokeZKProof_def js_get_def verifyZKProof_def verify_ok_def verify_failed_def)

section \<open>Theorems: wallet risk\<close>











section \<open>Theorems: account transactions\<close>





section \<open>Theorems: minting\<close>

text \<open>A draw in \<open>[0, 1)\<close> prints as one hex digit, so the simulated hash has 64 of them.\<close>

lemma hex_digit_of_draw:
  assumes "0 \<le> (x::real)" and "x < 1"
  shows "\<exists>d<16. show_hex \<lfloor>x * 16\<rfloor> = [hex_digit d]"
proof -
  have lo: "0 \<le> \<lfloor>x * 16\<rfloor>" using assms by simp
  have hi: "\<lfloor>x * 16\<rfloor> < 16" using assms by (simp add: floor_less_iff)
  then have "nat \<lfloor>x * 16\<rfloor> < 16" using lo by linarith
  then show ?thesis using lo
    by (auto simp: show_hex_def show_hex_nat.simps [of "nat \<lfloor>x * 16\<rfloor>"])
qed

lemma length_concat_singletons:
  "\<forall>x \<in> set xs. length (f x) = 1 \<Longrightarrow> length (concat (map f xs)) = length xs"
  by (induction xs) auto

lemma simulated_hash_shape:
  assumes "\<forall>n. 0 \<le> rnd n \<and> rnd n < 1"
  shows "length (simulated_hash rnd) = 66 \<and> take 2 (simulated_hash rnd) = ''0x''
         \<and> (\<forall>c \<in> set (drop 2 (simulated_hash rnd)). \<exists>d<16. c = hex_digit d)"
proof -
  have one: "\<forall>k \<in> set [0..<64]. length (show_hex \<lfloor>rnd k * 16\<rfloor>) = 1"
  proof
    fix k assume "k \<in> set [0..<64]"
    from assms have "0 \<le> rnd k" "rnd k < 1" by auto
    from hex_digit_of_draw [OF this] show "length (show_hex \<lfloor>rnd k * 16\<rfloor>) = 1" by auto
  qed
  have len: "length (concat (map (\<lambda>k. show_hex \<lfloor>rnd k * 16\<rfloor>) [0..<64])) = 64"
    using length_concat_singletons [OF one] by simp
  have digits: "\<forall>c \<in> set (concat (map (\<lambda>k. show_hex \<lfloor>rnd k * 16\<rfloor>) [0..<64])). \<exists>d<16. c = hex_digit d"
  proof
    fix c assume "c \<in> set (concat (map (\<lambda>k. show_hex \<lfloor>rnd k * 16\<rfloor>) [0..<64]))"
    then obtain k where c: "c \<in> set (show_hex \<lfloor>rnd k * 16\<rfloor>)" by auto
    from assms have "0 \<le> rnd k" "rnd k < 1" by auto
    from hex_digit_of_draw [OF this] c show "\<exists>d<16. c = hex_digit d" by auto
  qed
  show ?thesis using len digits by (simp add: simulated_hash_def)
qed

lemma rest_draws: "\<forall>n. 0 \<le> rnd n \<and> rnd n < 1 \<Longrightarrow> \<forall>n. 0 \<le> rest rnd n \<and> rest rnd n < 1"
  by (simp add: rest_def)

text \<open>The token id of the contract service is a whole number from 0 to 1000000.\<close>

lemma token_id_range:
  assumes "0 \<le> r" and "r < 1"
  shows "\<exists>k. jfloor (rmul binary64 (Fin r) (Fin 1000000)) = Fin (of_int k) \<and> 0 \<le> k \<and> k \<le> 1000000"
proof -
  have "of_int 0 \<le> r * 1000000" "r * 1000000 \<le> of_int 1000000" using assms by simp_all
  from binary64_between_int [OF this] obtain y where
    y: "binary64 (r * 1000000) = Fin y" "0 \<le> y" "y \<le> 1000000"
    by auto
  then have "0 \<le> \<lfloor>y\<rfloor>" "\<lfloor>y\<rfloor> \<le> 1000000" by (simp_all add: floor_le_iff)
  then show ?thesis using y(1) by auto
qed

text \<open>
  The initialisation leaves \<open>nftContract\<close> undefined without the package and with
  version 5, and a contract it sets never gives a receipt with \<open>events\<close>.
\<close>

lemma initialise_cases:
  "initialise ethers env c = None \<or> (ethers = Some V6 \<and> initialise ethers env c = Some (contract_of V6 c))"
  by (cases ethers)
    (auto simp: initialise_def new_provider_def split: sum.splits ethers_version.splits)

lemma v6_receipt_has_no_events:
  "contract_of V6 c a uri = Inr (Some rcpt) \<Longrightarrow> events rcpt = None"
  by (auto simp: contract_of_def split: sum.splits option.splits)

lemma service_mint_is_simulated:
  "blockchain_service_mint ethers env c render rnd clock address score
     = simulated_mint rnd clock address score
   \<or> blockchain_service_mint ethers env c render rnd clock address score
     = simulated_mint (rest rnd) (clock_after 2 clock) address score"
proof -
  from initialise_cases [of ethers env c] show ?thesis
  proof
    assume "initialise ethers env c = None"
    then show ?thesis by (simp add: blockchain_service_mint_def blockchain_mintCreditScoreNFT_def)
  next
    assume "ethers = Some V6 \<and> initialise ethers env c = Some (contract_of V6 c)"
    then have i: "initialise ethers env c = Some (contract_of V6 c)" by (rule conjunct2)
    show ?thesis
    proof (cases "isValidAddress ethers c address")
      case False
      then show ?thesis using i
        by (simp add: blockchain_service_mint_def blockchain_mintCreditScoreNFT_def)
    next
      case True
      have "blockchain_service_mint ethers env c render rnd clock address score
              = simulated_mint (rest rnd) (clock_after 2 clock) address score"
      proof (cases "contract_of V6 c address
                      (createCreditScoreMetadata render rnd clock address score)")
        case (Inl err)
        then show ?thesis using i True
          by (simp add: blockchain_service_mint_def blockchain_mintCreditScoreNFT_def Let_def)
      next
        case (Inr r)
        show ?thesis
        proof (cases r)
          case None
          then show ?thesis using i True Inr
            by (simp add: blockchain_service_mint_def blockchain_mintCreditScoreNFT_def Let_def)
        next
          case (Some rcpt)
          then have "events rcpt = None" using Inr v6_receipt_has_no_events by blast
          then show ?thesis using i True Inr Some
            by (simp add: blockchain_service_mint_def blockchain_mintCreditScoreNFT_def Let_def)
        qed
      qed
      then show ?thesis by (rule disjI2)
    qed
  qed
qed

lemma mint_never_fails:
  "mint_success (blockchain_mintCreditScoreNFT ethers c nftContract render rnd clock address score)"
  by (simp add: blockchain_mintCreditScoreNFT_def simulated_mint_def Let_def
      split: option.splits sum.splits)

text \<open>
  C7. For every address and every score both minting operations resolve with
  \<open>success: true\<close>, and neither has a failure result. The contract service fabricates the
  token id and the hash from two random draws, whatever the address and the score are:
  the token id is a whole number from 0 to 1000000, the hash is \<open>0x\<close> and up to 64 of the
  hex digits \<open>toString(16)\<close> prints. The blockchain service never reaches the result that
  carries a receipt: with no \<open>ethers\<close> package, with a version up to 5 (whose provider
  constructors the module does not find), with no key or contract address, with an
  invalid address, a minting that throws, and with version 6 even after a minting that
  the chain accepted (its receipt has no \<open>events\<close>), the result is the simulated one:
  \<open>simulated: true\<close>, a clock reading as token id and, for draws in \<open>[0, 1)\<close>, a hash of \<open>0x\<close>
  and 64 hex digits.
\<close>

theorem minting_never_fails:
  "nft_success (contract_mintCreditScoreNFT base16 render rnd clock address score)
   \<and> nft_tokenId (contract_mintCreditScoreNFT base16 render rnd clock address score)
       = nft_tokenId (contract_mintCreditScoreNFT base16 render rnd clock address' score')
   \<and> nft_txHash (contract_mintCreditScoreNFT base16 render rnd clock address score)
       = nft_txHash (contract_mintCreditScoreNFT base16 render rnd clock address' score')
   \<and> nft_txHash (contract_mintCreditScoreNFT base16 render rnd clock address score)
       = ''0x'' @ take 64 (drop 2 (base16 (rnd 1)))
   \<and> (0 \<le> rnd 0 \<and> rnd 0 < 1 \<longrightarrow>
        (\<exists>k. nft_tokenId (contract_mintCreditScoreNFT base16 render rnd clock address score)
               = Fin (of_int k) \<and> 0 \<le> k \<and> k \<le> 1000000))
   \<and> (list_all is_hex_char (drop 2 (base16 (rnd 1))) \<longrightarrow>
        list_all is_hex_char
          (drop 2 (nft_txHash (contract_mintCreditScoreNFT base16 render rnd clock address score))))
   \<and> mint_success (blockchain_mintCreditScoreNFT ethers c nftContract render rnd clock address score)
   \<and> (blockchain_service_mint ethers env c render rnd clock address score
         = simulated_mint rnd clock address score
       \<or> blockchain_service_mint ethers env c render rnd clock address score
         = simulated_mint (rest rnd) (clock_after 2 clock) address score)
   \<and> mint_success (blockchain_service_mint ethers env c render rnd clock address score)
   \<and> simulated (blockchain_service_mint ethers env c render rnd clock address score) = Some True
   \<and> (mint_tokenId (blockchain_service_mint ethers env c render rnd clock address score)
         = show_int (clock 0)
       \<or> mint_tokenId (blockchain_service_mint ethers env c render rnd clock address score)
         = show_int (clock 2))
   \<and> ((\<forall>n. 0 \<le> rnd n \<and> rnd n < 1) \<longrightarrow>
        (\<exists>h. mint_txHash (blockchain_service_mint ethers env c render rnd clock address score)
               = JStr h \<and> length h = 66 \<and> take 2 h = ''0x''
             \<and> (\<forall>ch \<in> set (drop 2 h). \<exists>d<16. ch = hex_digit d)))"
proof -
  let ?m = "blockchain_service_mint ethers env c render rnd clock address score"
  have sim: "?m = simulated_mint rnd clock address score
             \<or> ?m = simulated_mint (rest rnd) (clock_after 2 clock) address score"
    by (rule service_mint_is_simulated)
  have tok: "0 \<le> rnd 0 \<and> rnd 0 < 1 \<longrightarrow>
        (\<exists>k. nft_tokenId (contract_mintCreditScoreNFT base16 render rnd clock address score)
               = Fin (of_int k) \<and> 0 \<le> k \<and> k \<le> 1000000)"
    using token_id_range [of "rnd 0"] by (simp add: contract_mintCreditScoreNFT_def Let_def)
  have hex: "list_all is_hex_char (drop 2 (base16 (rnd 1))) \<longrightarrow>
        list_all is_hex_char
          (drop 2 (nft_txHash (contract_mintCreditScoreNFT base16 render rnd clock address score)))"
    by (auto simp: contract_mintCreditScoreNFT_def Let_def list_all_iff dest: in_set_takeD)
  have ok: "mint_success ?m" and flag: "simulated ?m = Some True"
    using sim by (auto simp: simulated_mint_def)
  have l: "clock_after 2 clock 0 = clock 2" unfolding clock_after_def by (rule arg_cong [of _ _ clock]) simp
  have tid: "mint_tokenId ?m = show_int (clock 0) \<or> mint_tokenId ?m = show_int (clock 2)"
    using sim l by (auto simp: simulated_mint_def)
  have shape: "(\<forall>n. 0 \<le> rnd n \<and> rnd n < 1) \<longrightarrow>
        (\<exists>h. mint_txHash ?m = JStr h \<and> length h = 66 \<and> take 2 h = ''0x''
             \<and> (\<forall>ch \<in> set (drop 2 h). \<exists>d<16. ch = hex_digit d))"
  proof
    assume r: "\<forall>n. 0 \<le> rnd n \<and> rnd n < 1"
    from sim show "\<exists>h. mint_txHash ?m = JStr h \<and> length h = 66 \<and> take 2 h = ''0x''
             \<and> (\<forall>ch \<in> set (drop 2 h). \<exists>d<16. ch = hex_digit d)"
    proof
      assume "?m = simulated_mint rnd clock address score"
      then have "mint_txHash ?m = JStr (simulated_hash rnd)" by (simp add: simulated_mint_def)
      then show ?thesis using simulated_hash_shape [OF r] by blast
    next
      assume "?m = simulated_mint (rest rnd) (clock_after 2 clock) address score"
      then have "mint_txHash ?m = JStr (simulated_hash (rest rnd))"
        by (simp add: simulated_mint_def)
      then show ?thesis using simulated_hash_shape [OF rest_draws [OF r]] by blast
    qed
  qed
  have contract: "nft_success (contract_mintCreditScoreNFT base16 render rnd clock address score)
   \<and> nft_tokenId (contract_mintCreditScoreNFT base16 render rnd clock address score)
       = nft_tokenId (contract_mintCreditScoreNFT base16 render rnd clock address' score')
   \<and> nft_txHash (contract_mintCreditScoreNFT base16 render rnd clock address score)
       = nft_txHash (contract_mintCreditScoreNFT base16 render rnd clock address' score')
   \<and> nft_txHash (contract_mintCreditScoreNFT base16 render rnd clock address score)
       = ''0x'' @ take 64 (drop 2 (base16 (rnd 1)))"
    by (simp add: contract_mintCreditScoreNFT_def Let_def)
  show ?thesis using contract tok hex mint_never_fails sim ok flag tid shape by blast
qed

text \<open>
  The theorem at version 6 with every setting present and a chain that accepts the
  minting and reports a \<open>Transfer\<close> event: the result is the simulated one.
\<close>

theorem minting_never_fails_witness:
  "(0 \<le> fixed_rng (1 / 2) 0 \<and> fixed_rng (1 / 2) 0 < 1)
   \<and> (\<forall>n. 0 \<le> fixed_rng (1 / 2) n \<and> fixed_rng (1 / 2) n < 1)
   \<and> list_all is_hex_char (drop 2 (no_base (fixed_rng (1 / 2) 1)))
   \<and> initialise (Some V6) configured_env accepting_chain = Some (contract_of V6 accepting_chain)
   \<and> nft_success (contract_mintCreditScoreNFT no_base no_render (fixed_rng (1 / 2)) (fixed_clock 0)
        ''0x8915BEab6cCaA2F486d8B1C36c7ec151F9C72F5E'' (Fin 700))
   \<and> (\<exists>k. nft_tokenId (contract_mintCreditScoreNFT no_base no_render (fixed_rng (1 / 2)) (fixed_clock 0)
        ''0x8915BEab6cCaA2F486d8B1C36c7ec151F9C72F5E'' (Fin 700)) = Fin (of_int k) \<and> 0 \<le> k \<and> k \<le> 1000000)
   \<and> blockchain_service_mint (Some V6) configured_env accepting_chain no_render (fixed_rng (1 / 2))
        (fixed_clock 0) ''0x8915BEab6cCaA2F486d8B1C36c7ec151F9C72F5E'' (Fin 700)
      = simulated_mint (fixed_rng (1 / 2)) (fixed_clock 0)
          ''0x8915BEab6cCaA2F486d8B1C36c7ec151F9C72F5E'' (Fin 700)
   \<and> (\<exists>h. mint_txHash (blockchain_service_mint (Some V6) configured_env accepting_chain no_render
             (fixed_rng (1 / 2)) (fixed_clock 0) ''0x8915BEab6cCaA2F486d8B1C36c7ec151F9C72F5E'' (Fin 700))
           = JStr h \<and> length h = 66)"
proof -
  have h1: "0 \<le> fixed_rng (1 / 2) 0 \<and> fixed_rng (1 / 2) 0 < 1"
    and h2: "\<forall>n. 0 \<le> fixed_rng (1 / 2) n \<and> fixed_rng (1 / 2) n < 1"
    by (simp_all add: fixed_rng_def)
  have h3: "list_all is_hex_char (drop 2 (no_base (fixed_rng (1 / 2) 1)))"
    by (simp add: no_base_def is_hex_char_def)
  have i: "initialise (Some V6) configured_env accepting_chain = Some (contract_of V6 accepting_chain)"
    by (simp add: initialise_def new_provider_def configured_env_def accepting_chain_def)
  have same: "simulated_mint (rest (fixed_rng (1 / 2))) (clock_after 2 (fixed_clock 0))
                ''0x8915BEab6cCaA2F486d8B1C36c7ec151F9C72F5E'' (Fin 700)
              = simulated_mint (fixed_rng (1 / 2)) (fixed_clock 0)
                ''0x8915BEab6cCaA2F486d8B1C36c7ec151F9C72F5E'' (Fin 700)"
    by (simp add: simulated_mint_def simulated_hash_def rest_def clock_after_def fixed_rng_def
        fixed_clock_def)
  from minting_never_fails [of no_base no_render "fixed_rng (1 / 2)" "fixed_clock 0"
      "''0x8915BEab6cCaA2F486d8B1C36c7ec151F9C72F5E''" "Fin 700"
      "''0x8915BEab6cCaA2F486d8B1C36c7ec151F9C72F5E''" "Fin 700" "Some V6" accepting_chain
      "initialise (Some V6) configured_env accepting_chain" configured_env]
  show ?thesis using h1 h2 h3 i same by auto
qed

section \<open>Theorems: volatility\<close>

text \<open>
  The loop of the daily returns computes the returns of C4, as long as no price is 0, and
  the two reductions compute a sum and a sum of squared deviations.
\<close>

lemma spec_daily_returns_step:
  "spec_daily_returns (a # b # ps) = (b - a) / a # spec_daily_returns (b # ps)"
proof -
  have "[1..<length (a # b # ps)] = 1 # [Suc (Suc 0)..<Suc (Suc (length ps))]"
    by (simp add: upt_conv_Cons del: upt_Suc)
  also have "[Suc (Suc 0)..<Suc (Suc (length ps))] = map Suc [1..<length (b # ps)]"
    by (simp add: map_Suc_upt del: upt_Suc)
  finally have idx: "[1..<length (a # b # ps)] = 1 # map Suc [1..<length (b # ps)]" .
  have "map (\<lambda>i. ((a # b # ps) ! i - (a # b # ps) ! (i - 1)) / (a # b # ps) ! (i - 1))
          (map Suc [1..<length (b # ps)])
        = map (\<lambda>i. ((b # ps) ! i - (b # ps) ! (i - 1)) / (b # ps) ! (i - 1)) [1..<length (b # ps)]"
    by (auto simp: nth_Cons split: nat.splits)
  then show ?thesis unfolding spec_daily_returns_def idx by simp
qed

lemma spec_daily_returns_short: "spec_daily_returns [] = []" "spec_daily_returns [a] = []"
  by (simp_all add: spec_daily_returns_def)

lemma daily_returns_spec:
  "\<forall>p \<in> set ps. price p \<noteq> 0 \<Longrightarrow> daily_returns ps = map Fin (spec_daily_returns (map price ps))"
  by (induction ps rule: daily_returns.induct)
    (simp_all add: spec_daily_returns_step spec_daily_returns_short)

lemma length_spec_daily_returns: "length (spec_daily_returns p) = length p - 1"
  by (simp add: spec_daily_returns_def)

lemma fold_sum: "foldl (\<lambda>sum v. jadd sum v) (Fin a) (map Fin xs) = Fin (a + sum_list xs)"
  by (induction xs arbitrary: a) (simp_all add: add.assoc)

lemma fold_squares:
  "foldl (\<lambda>sum v. jadd sum (jsquare (jsub v (Fin m)))) (Fin a) (map Fin xs)
     = Fin (a + sum_list (map (\<lambda>r. (r - m) ^ 2) xs))"
  by (induction xs arbitrary: a) (simp_all add: add.assoc jsub_def)

text \<open>
  C4. For every price series with at least two points and no price 0,
  \<open>calculateVolatilityMetrics\<close> returns, and its \<open>volatilityDaily\<close> is the population
  standard deviation of the daily returns \<open>(p\<^sub>i - p\<^sub>i\<^sub>-\<^sub>1) / p\<^sub>i\<^sub>-\<^sub>1\<close> and its
  \<open>volatilityAnnualized\<close> is \<open>volatilityDaily\<close> times the square root of 365. The source
  computes them with one loop for the returns and one \<open>reduce\<close> each for the mean and the
  variance, which the model has as one recursion and two left folds.
\<close>

theorem volatility_is_population_std_dev:
  assumes len: "2 \<le> length priceData"
    and nz: "\<forall>p \<in> set priceData. price p \<noteq> 0"
  shows "\<exists>m. calculateVolatilityMetrics tokenSymbol now priceData = Inr m \<and>
             volatilityDaily m = Fin (population_std_dev (spec_daily_returns (map price priceData))) \<and>
             volatilityAnnualized m = jmul (volatilityDaily m) (Fin (sqrt 365)) \<and>
             volatilityAnnualized m =
               Fin (population_std_dev (spec_daily_returns (map price priceData)) * sqrt 365)"
proof -
  let ?rs = "spec_daily_returns (map price priceData)"
  have ret: "daily_returns priceData = map Fin ?rs" using nz by (rule daily_returns_spec)
  have n: "length ?rs = length priceData - 1" by (simp add: length_spec_daily_returns)
  then have npos: "real (length ?rs) \<noteq> 0" using len by simp
  have mean: "jdiv (foldl (\<lambda>sum v. jadd sum v) (Fin 0) (map Fin ?rs)) (Fin (real (length ?rs)))
               = Fin (spec_mean ?rs)"
    using npos by (simp add: fold_sum spec_mean_def)
  have var: "jdiv (foldl (\<lambda>sum v. jadd sum (jsquare (jsub v (Fin (spec_mean ?rs))))) (Fin 0) (map Fin ?rs))
                  (Fin (real (length ?rs)))
              = Fin (sum_list (map (\<lambda>r. (r - spec_mean ?rs) ^ 2) ?rs) / real (length ?rs))"
    using npos by (simp add: fold_squares)
  have nonneg: "0 \<le> sum_list (map (\<lambda>r. (r - spec_mean ?rs) ^ 2) ?rs) / real (length ?rs)"
    by (intro divide_nonneg_nonneg sum_list_nonneg) auto
  have sd: "jsqrt (Fin (sum_list (map (\<lambda>r. (r - spec_mean ?rs) ^ 2) ?rs) / real (length ?rs)))
             = Fin (population_std_dev ?rs)"
    using nonneg by (simp add: population_std_dev_def)
  define stdDev where "stdDev =
    jsqrt (jdiv (foldl (\<lambda>sum v. jadd sum (jsquare (jsub v
              (jdiv (foldl (\<lambda>sum v. jadd sum v) (Fin 0) (daily_returns priceData))
                    (Fin (real (length (daily_returns priceData)))))))) (Fin 0) (daily_returns priceData))
            (Fin (real (length (daily_returns priceData)))))"
  obtain first others where pd: "priceData = first # others"
    using len by (cases priceData) auto
  have shape: "\<exists>m. calculateVolatilityMetrics tokenSymbol now priceData = Inr m \<and>
                   volatilityDaily m = stdDev \<and>
                   volatilityAnnualized m = jmul stdDev (jsqrt (Fin 365))"
    unfolding calculateVolatilityMetrics_def stdDev_def Let_def
    by (simp add: pd)
  have "stdDev = jsqrt (Fin (sum_list (map (\<lambda>r. (r - spec_mean ?rs) ^ 2) ?rs) / real (length ?rs)))"
    unfolding stdDev_def ret by (simp add: mean var del: jsqrt.simps)
  then have val: "stdDev = Fin (population_std_dev ?rs)"
    by (simp only: sd)
  from shape val show ?thesis by auto
qed

theorem volatility_is_population_std_dev_witness:
  "2 \<le> length two_prices \<and> list_all (\<lambda>p. price p \<noteq> 0) two_prices \<and>
   (\<exists>m. calculateVolatilityMetrics ''BTC'' 0 two_prices = Inr m \<and>
        volatilityDaily m = Fin 0 \<and> volatilityAnnualized m = Fin 0)"
proof -
  have h1: "2 \<le> length two_prices" by (simp add: two_prices_def)
  have h2: "\<forall>p \<in> set two_prices. price p \<noteq> 0" by (simp add: two_prices_def)
  have sd: "population_std_dev (spec_daily_returns (map price two_prices)) = 0"
    by (simp add: two_prices_def spec_daily_returns_def population_std_dev_def spec_mean_def)
  from volatility_is_population_std_dev [OF h1 h2, of "''BTC''" 0] h1 h2 sd
  show ?thesis by (auto simp: list_all_iff)
qed

section \<open>Theorems: value at risk\<close>

text \<open>
  \<open>calculateVaR\<close> never throws: an upper-cased token is not the name of an inherited
  property, the series of the table are not empty, and the series fabricated for an
  unknown token has 14 points.
\<close>

lemma upper_char_not_lower: "to_upper_char c \<notin> set ascii_lower"
proof (cases "c \<in> set ascii_lower")
  case True
  then show ?thesis by (auto simp: to_upper_char_def ascii_lower_def ascii_upper_def)
next
  case False
  then have "map_of (zip ascii_lower ascii_upper) c = None"
    by (simp add: map_of_eq_None_iff ascii_lower_def ascii_upper_def)
  then show ?thesis using False by (simp add: to_upper_char_def)
qed

lemma upper_has_no_lower: "c \<in> set (toUpperCase s) \<Longrightarrow> c \<notin> set ascii_lower"
  using upper_char_not_lower by (auto simp: toUpperCase_def)

lemma upper_is_own_name: "toUpperCase s \<notin> set object_prototype_keys"
proof
  assume "toUpperCase s \<in> set object_prototype_keys"
  then have "CHR ''o'' \<in> set (toUpperCase s) \<or> CHR ''a'' \<in> set (toUpperCase s)
             \<or> CHR ''e'' \<in> set (toUpperCase s)"
    by (auto simp: object_prototype_keys_def)
  then show False
    using upper_has_no_lower [of "CHR ''o''" s] upper_has_no_lower [of "CHR ''a''" s]
      upper_has_no_lower [of "CHR ''e''" s]
    by (auto simp: ascii_lower_def)
qed

lemma history_nonempty:
  "js_get tokenPriceHistory k = Own priceData \<Longrightarrow> priceData \<noteq> [] \<and> slice_last 14 priceData \<noteq> []"
  by (auto simp: js_get_def tokenPriceHistory_def btc_prices_def eth_prices_def aries_prices_def
      slice_last_def split: option.splits if_splits)

lemma metrics_return:
  "priceData \<noteq> [] \<Longrightarrow> \<exists>v. calculateVolatilityMetrics tokenSymbol now priceData = Inr v"
  by (cases priceData) (simp_all add: calculateVolatilityMetrics_def Let_def)

lemma mock_loop_nonempty: "fst (mock_loop rnd now basePrice (Suc k)) \<noteq> []"
  by (simp add: Let_def split_beta)

lemma getTokenVolatility_returns:
  "\<exists>v rnd'. getTokenVolatility rnd now tokenSymbol 14 = (Inr v, rnd')"
proof (cases "js_get tokenPriceHistory (toUpperCase tokenSymbol)")
  case (Own priceData)
  from history_nonempty [OF this] have "slice_last 14 priceData \<noteq> []" by simp
  from metrics_return [OF this] Own show ?thesis by (simp add: getTokenVolatility_def)
next
  case Inherited
  then show ?thesis using upper_is_own_name [of tokenSymbol]
    by (simp add: js_get_def split: option.splits if_splits)
next
  case Absent
  have "14 = Suc 13" by simp
  then have "fst (mock_loop (rest rnd) now (10 + rnd 0 * 90) 14) \<noteq> []"
    using mock_loop_nonempty by metis
  from metrics_return [OF this] Absent show ?thesis
    by (simp add: getTokenVolatility_def Let_def split_beta)
qed

lemma portfolio_value_returns:
  "\<exists>pv rnd'. portfolio_value rnd acc holdings = Inr (pv, rnd')"
proof (induction holdings arbitrary: rnd acc)
  case Nil
  then show ?case by simp
next
  case (Cons h hs)
  show ?case
  proof (cases "js_get tokenPriceHistory (toUpperCase (token h))")
    case (Own tokenData)
    from history_nonempty [OF this] obtain p ps where "tokenData = p # ps"
      by (cases tokenData) auto
    then show ?thesis using Own Cons.IH by simp
  next
    case Inherited
    then show ?thesis using upper_is_own_name [of "token h"]
      by (simp add: js_get_def split: option.splits if_splits)
  next
    case Absent
    then show ?thesis using Cons.IH by simp
  qed
qed

lemma token_volatilities_return:
  "\<exists>tvs. promise_all (token_volatilities rnd now pv holdings) = Inr tvs"
proof (induction holdings arbitrary: rnd)
  case Nil
  then show ?case by simp
next
  case (Cons h hs)
  obtain v rnd' where g: "getTokenVolatility rnd now (token h) 14 = (Inr v, rnd')"
    using getTokenVolatility_returns by blast
  from Cons.IH [of rnd'] obtain tvs where "promise_all (token_volatilities rnd' now pv hs) = Inr tvs"
    by blast
  then show ?case using g by simp
qed

text \<open>Scaling a value at risk by a positive factor scales its percentage of the portfolio.\<close>

lemma percentage_scales:
  assumes "0 < s"
  shows "jmul (jdiv (jmul d (Fin s)) (Fin pv)) (Fin 100) = jmul (jmul (jdiv d (Fin pv)) (Fin 100)) (Fin s)"
  using assms by (cases d) (auto simp: signed_inf_def zero_less_mult_iff mult_less_0_iff)

text \<open>
  C5. For every list of holdings, every confidence level and every outcome of the random
  draws, \<open>calculateVaR\<close> returns; the daily amount is the portfolio value times the
  portfolio volatility times \<open>z\<close>, where \<open>z\<close> is 2.326 for the confidence level 0.99 and
  1.645 for any other; the weekly and monthly amounts are the daily amount times the
  square roots of 7 and of 30, and so are the weekly and monthly percentages.
\<close>

theorem calculateVaR_scaling:
  "\<exists>res pv rnd' tvs.
      calculateVaR rnd now holdings confidence = Inr res \<and>
      portfolio_value rnd 0 holdings = Inr (pv, rnd') \<and>
      promise_all (token_volatilities rnd' now pv holdings) = Inr tvs \<and>
      portfolioValue res = pv \<and>
      var_amount (dailyVaR res) =
        jmul (jmul (Fin pv) (portfolio_volatility tvs))
             (Fin (if confidence = 0.99 then 2.326 else 1.645)) \<and>
      var_amount (weeklyVaR res) = jmul (var_amount (dailyVaR res)) (Fin (sqrt 7)) \<and>
      var_amount (monthlyVaR res) = jmul (var_amount (dailyVaR res)) (Fin (sqrt 30)) \<and>
      var_percentage (weeklyVaR res) = jmul (var_percentage (dailyVaR res)) (Fin (sqrt 7)) \<and>
      var_percentage (monthlyVaR res) = jmul (var_percentage (dailyVaR res)) (Fin (sqrt 30))"
proof -
  obtain pv rnd' where pv: "portfolio_value rnd 0 holdings = Inr (pv, rnd')"
    using portfolio_value_returns by blast
  obtain tvs where tvs: "promise_all (token_volatilities rnd' now pv holdings) = Inr tvs"
    using token_volatilities_return by blast
  have s7: "0 < sqrt 7" and s30: "0 < sqrt 30" by simp_all
  show ?thesis
    using percentage_scales [OF s7] percentage_scales [OF s30]
    by (simp add: calculateVaR_def pv tvs Let_def horizon_def zScore_def)
qed

theorem calculateVaR_scaling_witness:
  "btc_holding \<noteq> [] \<and>
   (\<exists>res. calculateVaR (fixed_rng (1 / 2)) 0 btc_holding 0.99 = Inr res \<and>
      portfolioValue res = 190000 \<and>
      var_amount (weeklyVaR res) = jmul (var_amount (dailyVaR res)) (Fin (sqrt 7)) \<and>
      var_percentage (monthlyVaR res) = jmul (var_percentage (dailyVaR res)) (Fin (sqrt 30)))"
proof -
  have u: "toUpperCase ''btc'' = ''BTC''"
    by (simp add: toUpperCase_def to_upper_char_def ascii_lower_def ascii_upper_def)
  have pv: "portfolio_value (fixed_rng (1 / 2)) 0 btc_holding = Inr (190000, fixed_rng (1 / 2))"
    by (simp add: btc_holding_def u js_get_def tokenPriceHistory_def btc_prices_def)
  from calculateVaR_scaling [of "fixed_rng (1 / 2)" 0 btc_holding "0.99"] pv
  show ?thesis by (auto simp: btc_holding_def)
qed

end
